theory Spec2Isabelle
  imports Main "HOL-Library.AList"
begin

section \<open>Python values, strings and exceptions\<close>

text \<open>
  The program is \<^verbatim>\<open>dictionary.py\<close>: a command-line shell over one MySQL table of words.
  Python strings are modelled as \<^typ>\<open>string\<close> (the ASCII range); a \<^verbatim>\<open>dict\<close> is an association
  list in insertion order, assigned to with \<^const>\<open>AList.update\<close> (an existing key keeps its
  place, a new key goes to the end) and read with \<^const>\<open>map_of\<close>.
\<close>

datatype pyval = PStr string | PInt int | PNone

text \<open>The error a failed driver call carries (\<^verbatim>\<open>mysql.connector.errors.Error\<close>):
  its code, its message and the text \<^verbatim>\<open>str(err)\<close> gives.\<close>

record mysql_error =
  errno :: int
  msg :: string
  full_msg :: string

text \<open>The three subclasses of \<^verbatim>\<open>ConnectionFailureError\<close> (lines 104-122).\<close>

datatype failure_class = IncorrectLoginClass | DatabaseNotFoundClass | AccessDeniedClass

text \<open>
  Every exception the program can meet. \<^verbatim>\<open>ValueError\<close> and \<^verbatim>\<open>TypeError\<close> carry their message,
  \<^verbatim>\<open>KeyError\<close> the key that was not found, \<^verbatim>\<open>MySQLError\<close> stands for
  \<^verbatim>\<open>mysql.connector.errors.Error\<close> and its subclasses, and \<^verbatim>\<open>ConnectionFailureError\<close> holds
  the class, the driver error and the message that the base class stores (lines 93-101).
\<close>

datatype exn =
    ValueError string
  | KeyError string
  | TypeError string
  | EOFError
  | KeyboardInterrupt
  | MySQLError mysql_error
  | ConnectionFailureError failure_class mysql_error string

subsection \<open>\<^verbatim>\<open>str.strip\<close>, \<^verbatim>\<open>str.split\<close> and \<^verbatim>\<open>int\<close>\<close>

text \<open>The ASCII characters for which \<^verbatim>\<open>str.isspace\<close> holds.\<close>

definition whitespace :: "char list" where
  "whitespace =
     [CHR 0x09, CHR ''\<newline>'', CHR 0x0B, CHR 0x0C, CHR 0x0D,
      CHR 0x1C, CHR 0x1D, CHR 0x1E, CHR 0x1F, CHR '' '']"

definition isspace :: "char \<Rightarrow> bool" where
  "isspace c = (c \<in> set whitespace)"

definition strip :: "string \<Rightarrow> string" where
  "strip s = rev (dropWhile isspace (rev (dropWhile isspace s)))"

text \<open>\<^verbatim>\<open>s.split(sep)\<close> for a one-character separator: one more part than separators.\<close>

fun split_on :: "char \<Rightarrow> string \<Rightarrow> string list" where
  "split_on sep [] = [[]]"
| "split_on sep (c # cs) =
     (if c = sep then [] # split_on sep cs
      else (case split_on sep cs of
              [] \<Rightarrow> [[c]]
            | p # ps \<Rightarrow> (c # p) # ps))"

definition not_enough_values :: string where
  "not_enough_values = ''not enough values to unpack (expected 2, got 1)''"

definition too_many_values :: string where
  "too_many_values = ''too many values to unpack (expected 2)''"

text \<open>The tuple assignment \<^verbatim>\<open>key, val = parts\<close> (line 68).\<close>

fun unpack2 :: "string list \<Rightarrow> exn + (string \<times> string)" where
  "unpack2 [] = Inl (ValueError not_enough_values)"
| "unpack2 [k] = Inl (ValueError not_enough_values)"
| "unpack2 [k, v] = Inr (k, v)"
| "unpack2 (k # v # x # xs) = Inl (ValueError too_many_values)"

definition is_digit :: "char \<Rightarrow> bool" where
  "is_digit c = (c \<in> set ''0123456789'')"

definition digit_val :: "char \<Rightarrow> nat" where
  "digit_val c = length (takeWhile (\<lambda>d. d \<noteq> c) ''0123456789'')"

text \<open>The whitespace \<^verbatim>\<open>int\<close> skips around an ASCII literal: tab, line feed, vertical tab, form
  feed, carriage return and space. (It is narrower than that of \<^verbatim>\<open>str.strip\<close>: the
  separators \<^verbatim>\<open>0x1C\<close> to \<^verbatim>\<open>0x1F\<close> are not skipped.)\<close>

definition int_space :: "char list" where
  "int_space = [CHR 0x09, CHR ''\<newline>'', CHR 0x0B, CHR 0x0C, CHR 0x0D, CHR '' '']"

definition is_int_space :: "char \<Rightarrow> bool" where
  "is_int_space c = (c \<in> set int_space)"

text \<open>The interpreter refuses to convert a literal of more digits than
  \<^verbatim>\<open>sys.get_int_max_str_digits()\<close>, 4300 unless configured otherwise.\<close>

definition int_max_str_digits :: nat where
  "int_max_str_digits = 4300"

text \<open>The run of digits of a decimal literal after its first digit: the number of digits,
  their value and the text after the run. A single underscore may stand between two digits;
  any other underscore is an error (\<^const>\<open>None\<close>).\<close>

fun digit_run :: "nat \<Rightarrow> nat \<Rightarrow> string \<Rightarrow> (nat \<times> nat \<times> string) option" where
  "digit_run acc cnt [] = Some (cnt, acc, [])"
| "digit_run acc cnt (c # cs) =
     (if is_digit c then digit_run (10 * acc + digit_val c) (Suc cnt) cs
      else if c = CHR ''_'' then
        (case cs of
           [] \<Rightarrow> None
         | d # ds \<Rightarrow>
             if is_digit d then digit_run (10 * acc + digit_val d) (Suc cnt) ds else None)
      else Some (cnt, acc, c # cs))"

text \<open>
  What \<^verbatim>\<open>int(s)\<close> reads from a string, base 10: leading whitespace is skipped, one sign is
  allowed, then comes the run of digits, at least one. A run of more digits than the limit is
  refused at once, whatever follows it; otherwise only whitespace may follow.
\<close>

datatype int_reading = Invalid_literal | Over_limit nat | Literal int

definition int_literal :: "string \<Rightarrow> int_reading" where
  "int_literal s =
     (case dropWhile is_int_space s of
        [] \<Rightarrow> Invalid_literal
      | c # cs \<Rightarrow>
          (case (if c = CHR ''-'' \<or> c = CHR ''+'' then cs else c # cs) of
             [] \<Rightarrow> Invalid_literal
           | d # ds \<Rightarrow>
               if \<not> is_digit d then Invalid_literal
               else
                 (case digit_run (digit_val d) 1 ds of
                    None \<Rightarrow> Invalid_literal
                  | Some (cnt, n, rest) \<Rightarrow>
                      if cnt > int_max_str_digits then Over_limit cnt
                      else if dropWhile is_int_space rest \<noteq> [] then Invalid_literal
                      else Literal (if c = CHR ''-'' then - int n else int n))))"

text \<open>\<^verbatim>\<open>repr(s)\<close> of an ASCII string: double quotes when the string holds a single quote and
  no double quote, single quotes otherwise; the quote and the backslash are escaped, and so
  are the control characters.\<close>

definition hex_digit :: "nat \<Rightarrow> char" where
  "hex_digit n = ''0123456789abcdef'' ! n"

definition repr_char :: "char \<Rightarrow> char \<Rightarrow> string" where
  "repr_char quote c =
     (if c = quote \<or> c = CHR 0x5C then [CHR 0x5C, c]
      else if c = CHR 0x09 then [CHR 0x5C, CHR ''t'']
      else if c = CHR ''\<newline>'' then [CHR 0x5C, CHR ''n'']
      else if c = CHR 0x0D then [CHR 0x5C, CHR ''r'']
      else if (of_char c :: nat) < 32 \<or> c = CHR 0x7F then
        [CHR 0x5C, CHR ''x'', hex_digit (of_char c div 16), hex_digit (of_char c mod 16)]
      else [c])"

definition py_repr :: "string \<Rightarrow> string" where
  "py_repr s =
     (let quote = (if CHR 0x27 \<in> set s \<and> CHR 0x22 \<notin> set s then CHR 0x22 else CHR 0x27)
      in [quote] @ concat (map (repr_char quote) s) @ [quote])"

text \<open>The message of the \<^verbatim>\<open>ValueError\<close> for an invalid literal: the \<^verbatim>\<open>repr\<close> of the string, cut
  to 200 characters.\<close>

definition invalid_literal :: "string \<Rightarrow> string" where
  "invalid_literal s = ''invalid literal for int() with base 10: '' @ take 200 (py_repr s)"

fun show_nat :: "nat \<Rightarrow> string" where
  "show_nat n =
     (if n < 10 then [''0123456789'' ! n]
      else show_nat (n div 10) @ [''0123456789'' ! (n mod 10)])"

declare show_nat.simps [simp del]

definition exceeds_limit :: "nat \<Rightarrow> string" where
  "exceeds_limit digits =
     ''Exceeds the limit ('' @ show_nat int_max_str_digits @
     '' digits) for integer string conversion: value has '' @ show_nat digits @
     '' digits; use sys.set_int_max_str_digits() to increase the limit''"

definition int_none_message :: string where
  "int_none_message =
     ''int() argument must be a string, a bytes-like object or a real number, not 'NoneType''
       @ [CHR 0x27]"

fun py_int :: "pyval \<Rightarrow> exn + int" where
  "py_int (PInt n) = Inr n"
| "py_int (PStr s) =
     (case int_literal s of
        Invalid_literal \<Rightarrow> Inl (ValueError (invalid_literal s))
      | Over_limit digits \<Rightarrow> Inl (ValueError (exceeds_limit digits))
      | Literal n \<Rightarrow> Inr n)"
| "py_int PNone = Inl (TypeError int_none_message)"

text \<open>Truth value of an object, as \<^verbatim>\<open>all\<close> tests it.\<close>

fun truthy :: "pyval \<Rightarrow> bool" where
  "truthy (PStr s) = (s \<noteq> [])"
| "truthy (PInt n) = (n \<noteq> 0)"
| "truthy PNone = False"

text \<open>\<^verbatim>\<open>d.get(k)\<close>: the value, or \<^verbatim>\<open>None\<close>.\<close>

definition dict_get :: "(string \<times> pyval) list \<Rightarrow> string \<Rightarrow> pyval" where
  "dict_get d k = (case map_of d k of None \<Rightarrow> PNone | Some v \<Rightarrow> v)"

section \<open>\<^verbatim>\<open>Environ\<close>: resolving the connection parameters (lines 18-90)\<close>

definition CONFIG_MAP :: "(string \<times> string) list" where
  "CONFIG_MAP =
     [(''host'', ''MYSQL_HOST''),
      (''port'', ''MYSQL_PORT''),
      (''user'', ''MYSQL_USER''),
      (''password'', ''MYSQL_PASSWORD''),
      (''database'', ''MYSQL_DATABASE''),
      (''auth_plugin'', ''MYSQL_AUTH'')]"

definition DEFAULT_ENV :: "(string \<times> pyval) list" where
  "DEFAULT_ENV =
     [(''host'', PStr ''localhost''),
      (''port'', PInt 3306),
      (''user'', PStr ''root''),
      (''password'', PStr ''Password''),
      (''database'', PStr ''dictionary''),
      (''auth_plugin'', PStr ''caching_sha2_password'')]"

text \<open>
  What \<^verbatim>\<open>load\<close> is called with: nothing, a text file (its \<^verbatim>\<open>readlines()\<close>), or any other
  object.
\<close>

datatype file_arg = NoFile | TextFile "string list" | OtherObject

text \<open>The loop of lines 67-70: every line is stripped, split at \<^verbatim>\<open>=\<close> and unpacked into
  \<^verbatim>\<open>envvars\<close>.\<close>

fun read_lines :: "string list \<Rightarrow> (string \<times> string) list \<Rightarrow> exn + (string \<times> string) list" where
  "read_lines [] envvars = Inr envvars"
| "read_lines (line # rest) envvars =
     (case unpack2 (split_on CHR ''='' (strip line)) of
        Inl e \<Rightarrow> Inl e
      | Inr (key, val) \<Rightarrow> read_lines rest (AList.update key val envvars))"

text \<open>The comprehension of line 73, \<^verbatim>\<open>{key: envvars[val] for key, val in items}\<close>: the first
  name that \<^verbatim>\<open>envvars\<close> lacks raises \<^verbatim>\<open>KeyError\<close>.\<close>

fun map_config ::
  "(string \<times> string) list \<Rightarrow> (string \<times> string) list \<Rightarrow> (string \<times> pyval) list
    \<Rightarrow> exn + (string \<times> pyval) list" where
  "map_config [] envvars d = Inr d"
| "map_config ((key, val) # items) envvars d =
     (case map_of envvars val of
        None \<Rightarrow> Inl (KeyError val)
      | Some v \<Rightarrow> map_config items envvars (AList.update key (PStr v) d))"

text \<open>\<^verbatim>\<open>os.environ.get(v, default)\<close> and \<^verbatim>\<open>os.getenv(v)\<close> over a snapshot of the environment.\<close>

definition environ_get :: "(string \<Rightarrow> string option) \<Rightarrow> string \<Rightarrow> pyval \<Rightarrow> pyval" where
  "environ_get environ v dflt = (case environ v of None \<Rightarrow> dflt | Some s \<Rightarrow> PStr s)"

definition getenv :: "(string \<Rightarrow> string option) \<Rightarrow> string \<Rightarrow> pyval" where
  "getenv environ v = environ_get environ v PNone"

text \<open>A comprehension \<^verbatim>\<open>{key: f(val) for key, val in items}\<close> whose values cannot fail.\<close>

definition dict_comp :: "('a \<Rightarrow> pyval) \<Rightarrow> (string \<times> 'a) list \<Rightarrow> (string \<times> pyval) list" where
  "dict_comp f items = foldl (\<lambda>d (key, val). AList.update key (f val) d) [] items"

text \<open>Lines 65-87: the parameter set before the port is coerced.\<close>

definition resolve_source ::
  "file_arg \<Rightarrow> (string \<Rightarrow> string option) \<Rightarrow> exn + (string \<times> pyval) list" where
  "resolve_source file environ =
     (case file of
        TextFile lines \<Rightarrow>
          (case read_lines lines [] of
             Inl e \<Rightarrow> Inl e
           | Inr envvars \<Rightarrow> map_config CONFIG_MAP envvars [])
      | NoFile \<Rightarrow>
          (let envvars = map (\<lambda>v. environ_get environ v (PInt 0)) (map snd CONFIG_MAP)
           in if list_all truthy envvars
              then Inr (dict_comp (getenv environ) CONFIG_MAP)
              else Inr (dict_comp (\<lambda>val. val) DEFAULT_ENV))
      | OtherObject \<Rightarrow> Inr (dict_comp (\<lambda>val. val) DEFAULT_ENV))"

text \<open>Line 89: \<^verbatim>\<open>env.update(port=int(env.get('port')))\<close>.\<close>

definition coerce_port :: "(string \<times> pyval) list \<Rightarrow> exn + (string \<times> pyval) list" where
  "coerce_port env =
     (case py_int (dict_get env ''port'') of
        Inl e \<Rightarrow> Inl e
      | Inr n \<Rightarrow> Inr (AList.update ''port'' (PInt n) env))"

definition Environ_load ::
  "file_arg \<Rightarrow> (string \<Rightarrow> string option) \<Rightarrow> exn + (string \<times> pyval) list" where
  "Environ_load file environ =
     (case resolve_source file environ of
        Inl e \<Rightarrow> Inl e
      | Inr env \<Rightarrow> coerce_port env)"

section \<open>The console and the database driver\<close>

text \<open>
  The terminal and the MySQL connector are outside the program. A run is modelled against
  a \<open>world\<close>: what the keyboard will deliver, what has been written to standard output,
  and the state of the server and of the one connection. What the driver does on a call
  (accept or refuse the login, fail a statement) is read from the world, so that every
  behaviour of the driver is some world.
\<close>

datatype stdin_event = Line string | Sigint

record world =
  stdin :: "stdin_event list"
  stdout :: "string list"
  connect_outcome :: "(string \<times> pyval) list \<Rightarrow> exn option"
  faults :: "exn option list"
  words :: "string list"
  committed :: "string list"
  server_version :: string
  issued :: "(string \<times> (string \<times> string) list) list"
  cursor_rows :: "(string \<times> string) list list"
  cursor_unread :: bool
  connected :: bool
  closes :: nat
  running :: bool

text \<open>A statement of the program either raises or returns a value, and changes the world.\<close>

type_synonym 'a io = "world \<Rightarrow> (exn + 'a) \<times> world"

definition io_return :: "'a \<Rightarrow> 'a io" where
  "io_return x w = (Inr x, w)"

definition io_bind :: "'a io \<Rightarrow> ('a \<Rightarrow> 'b io) \<Rightarrow> 'b io" where
  "io_bind m f w = (case m w of (Inl e, w') \<Rightarrow> (Inl e, w') | (Inr x, w') \<Rightarrow> f x w')"

subsection \<open>Console\<close>

definition sys_stdout_write :: "string \<Rightarrow> unit io" where
  "sys_stdout_write s w = (Inr (), w\<lparr>stdout := stdout w @ [s]\<rparr>)"

definition py_print :: "string \<Rightarrow> unit io" where
  "py_print s = sys_stdout_write (s @ ''\<newline>'')"

text \<open>
  A blocking read takes the next event of the keyboard: a line, or the interrupt key
  (\<^verbatim>\<open>KeyboardInterrupt\<close>); at the end of the input it raises \<^verbatim>\<open>EOFError\<close>.
\<close>

definition read_event :: "string io" where
  "read_event w =
     (case stdin w of
        [] \<Rightarrow> (Inl EOFError, w)
      | Line s # rest \<Rightarrow> (Inr s, w\<lparr>stdin := rest\<rparr>)
      | Sigint # rest \<Rightarrow> (Inl KeyboardInterrupt, w\<lparr>stdin := rest\<rparr>))"

text \<open>\<^verbatim>\<open>input(prompt)\<close> writes the prompt to standard output and reads a line.\<close>

definition py_input :: "string \<Rightarrow> string io" where
  "py_input prompt = io_bind (sys_stdout_write prompt) (\<lambda>_. read_event)"

text \<open>\<^verbatim>\<open>getpass(prompt)\<close> reads a line from the terminal; its prompt does not go to standard
  output.\<close>

definition getpass :: "string \<Rightarrow> string io" where
  "getpass prompt = read_event"

subsection \<open>Driver\<close>

text \<open>A call into the driver takes the next entry of the fault script: \<open>Some e\<close> makes the
  call raise \<open>e\<close>; with no entry left the call goes through.\<close>

definition driver_call :: "unit io" where
  "driver_call w =
     (case faults w of
        [] \<Rightarrow> (Inr (), w)
      | None # fs \<Rightarrow> (Inr (), w\<lparr>faults := fs\<rparr>)
      | Some e # fs \<Rightarrow> (Inl e, w\<lparr>faults := fs\<rparr>))"

text \<open>\<^verbatim>\<open>db.connect(**creds)\<close>: the server's answer to these credentials.\<close>

definition db_connect :: "(string \<times> pyval) list \<Rightarrow> unit io" where
  "db_connect creds w =
     (case connect_outcome w creds of
        None \<Rightarrow> (Inr (), w\<lparr>connected := True\<rparr>)
      | Some e \<Rightarrow> (Inl e, w))"

definition connection_close :: "unit io" where
  "connection_close w = (Inr (), w\<lparr>connected := False, closes := closes w + 1\<rparr>)"

text \<open>
  The cursor of line 159 is unbuffered: rows of a result that \<^verbatim>\<open>fetchone\<close> has not yet
  reached stay unread on the connection, and while a result is unread the connector
  refuses the next statement or commit with \<^verbatim>\<open>InternalError("Unread result found")\<close>.
\<close>

definition unread_result_found :: exn where
  "unread_result_found =
     MySQLError \<lparr>errno = - 1, msg = ''Unread result found'', full_msg = ''Unread result found''\<rparr>"

definition handle_unread_result :: "unit io" where
  "handle_unread_result w =
     (if cursor_unread w then (Inl unread_result_found, w) else (Inr (), w))"

definition connection_commit :: "unit io" where
  "connection_commit =
     io_bind handle_unread_result (\<lambda>_.
     io_bind driver_call (\<lambda>_ w. (Inr (), w\<lparr>committed := words w\<rparr>)))"

text \<open>\<^verbatim>\<open>connection.cursor(dictionary=True)\<close> (line 159): a new cursor, with no result. The
  connection is the one that \<^verbatim>\<open>Connect.__enter__\<close> has just opened: no statement has run on it,
  so that nothing is unread when the program creates its one cursor.\<close>

definition connection_cursor :: "unit io" where
  "connection_cursor w = (Inr (), w\<lparr>cursor_rows := [], cursor_unread := False\<rparr>)"

text \<open>The five statements of the class \<^verbatim>\<open>Queries\<close> (lines 152-156).\<close>

definition Queries_version :: string where
  "Queries_version = ''SHOW VARIABLES like 'version';''"

definition Queries__select :: string where
  "Queries__select = ''SELECT word FROM words WHERE word = %(word)s;''"

definition Queries__insert :: string where
  "Queries__insert = ''INSERT INTO words (word) VALUES (%(new_word)s);''"

definition Queries__update :: string where
  "Queries__update = ''UPDATE words SET word = %(new_word)s WHERE word = %(word)s;''"

definition Queries__delete :: string where
  "Queries__delete = ''DELETE FROM words WHERE word = %(word)s;''"

definition programming_error :: exn where
  "programming_error =
     MySQLError \<lparr>errno = 1064, msg = ''You have an error in your SQL syntax'',
       full_msg = ''1064 (42000): You have an error in your SQL syntax''\<rparr>"

text \<open>
  Modelled from the spec: the database engine that executes a statement is not part of the
  repository, and neither is the schema of the table \<^verbatim>\<open>words\<close>. The table is a list of
  words. In the spec's words, select is an exact-match lookup by word that returns nothing
  if the word is absent, insert inserts a new row, update replaces the row matching the old
  word with the new word, and delete removes the row matching the word. The version
  statement yields the one row of the server variable \<^verbatim>\<open>version\<close>. A statement that yields rows
  leaves them unread on the cursor.
\<close>

definition run_statement :: "string \<Rightarrow> (string \<times> string) list \<Rightarrow> unit io" where
  "run_statement operation params w =
     (if operation = Queries_version then
        (Inr (), w\<lparr>cursor_rows := [[(''Variable_name'', ''version''), (''Value'', server_version w)]],
                   cursor_unread := True\<rparr>)
      else if operation = Queries__select then
        (case map_of params ''word'' of
           None \<Rightarrow> (Inl programming_error, w)
         | Some word \<Rightarrow>
             (Inr (), w\<lparr>cursor_rows := map (\<lambda>r. [(''word'', r)]) (filter (\<lambda>r. r = word) (words w)),
                        cursor_unread := True\<rparr>))
      else if operation = Queries__insert then
        (case map_of params ''new_word'' of
           None \<Rightarrow> (Inl programming_error, w)
         | Some new_word \<Rightarrow>
             (Inr (), w\<lparr>words := words w @ [new_word], cursor_rows := [],
                        cursor_unread := False\<rparr>))
      else if operation = Queries__update then
        (case (map_of params ''word'', map_of params ''new_word'') of
           (Some word, Some new_word) \<Rightarrow>
             (Inr (), w\<lparr>words := map (\<lambda>r. if r = word then new_word else r) (words w),
                        cursor_rows := [], cursor_unread := False\<rparr>)
         | _ \<Rightarrow> (Inl programming_error, w))
      else if operation = Queries__delete then
        (case map_of params ''word'' of
           None \<Rightarrow> (Inl programming_error, w)
         | Some word \<Rightarrow>
             (Inr (), w\<lparr>words := filter (\<lambda>r. r \<noteq> word) (words w), cursor_rows := [],
                        cursor_unread := False\<rparr>))
      else (Inl programming_error, w))"

text \<open>\<^verbatim>\<open>cursor.execute(operation, params)\<close>: refused while a result is unread; otherwise the
  statement is sent (and recorded as issued); the driver may raise; otherwise the engine
  runs it.\<close>

definition cursor_execute :: "string \<Rightarrow> (string \<times> string) list \<Rightarrow> unit io" where
  "cursor_execute operation params =
     io_bind handle_unread_result (\<lambda>_.
     io_bind (\<lambda>w. (Inr (), w\<lparr>issued := issued w @ [(operation, params)]\<rparr>)) (\<lambda>_.
     io_bind driver_call (\<lambda>_.
     run_statement operation params)))"

text \<open>\<^verbatim>\<open>cursor.fetchone()\<close>: the next row as a dict, or \<^verbatim>\<open>None\<close>. The cursor looks one row
  ahead: the result is read once the row returned was its last.\<close>

definition cursor_fetchone :: "(string \<times> string) list option io" where
  "cursor_fetchone w =
     (if \<not> cursor_unread w then (Inr None, w)
      else
        (case cursor_rows w of
           [] \<Rightarrow> (Inr None, w\<lparr>cursor_unread := False\<rparr>)
         | r # rs \<Rightarrow> (Inr (Some r), w\<lparr>cursor_rows := rs, cursor_unread := (rs \<noteq> [])\<rparr>)))"

definition not_subscriptable :: string where
  "not_subscriptable = [CHR 0x27] @ ''NoneType' object is not subscriptable''"

text \<open>\<^verbatim>\<open>res[key]\<close> on what \<^verbatim>\<open>fetchone\<close> returned.\<close>

definition subscript :: "(string \<times> string) list option \<Rightarrow> string \<Rightarrow> string io" where
  "subscript res key w =
     (case res of
        None \<Rightarrow> (Inl (TypeError not_subscriptable), w)
      | Some row \<Rightarrow>
          (case map_of row key of
             None \<Rightarrow> (Inl (KeyError key), w)
           | Some v \<Rightarrow> (Inr v, w)))"

section \<open>\<^verbatim>\<open>Connect\<close>: the connection handler (lines 93-147)\<close>

text \<open>The error codes of \<^verbatim>\<open>mysql.connector.errorcode\<close> that the handler tests.\<close>

definition ER_ACCESS_DENIED_ERROR :: int where
  "ER_ACCESS_DENIED_ERROR = 1045"

definition ER_DBACCESS_DENIED_ERROR :: int where
  "ER_DBACCESS_DENIED_ERROR = 1044"

definition ER_BAD_DB_ERROR :: int where
  "ER_BAD_DB_ERROR = 1049"

definition IncorrectLogin :: "mysql_error \<Rightarrow> exn" where
  "IncorrectLogin error =
     ConnectionFailureError IncorrectLoginClass error
       ''Could not login to host with user/password provided.''"

definition DatabaseNotFound :: "mysql_error \<Rightarrow> exn" where
  "DatabaseNotFound error = ConnectionFailureError DatabaseNotFoundClass error (msg error)"

definition AccessDenied :: "mysql_error \<Rightarrow> exn" where
  "AccessDenied error = ConnectionFailureError AccessDeniedClass error (msg error)"

definition Connect_enter :: "(string \<times> pyval) list \<Rightarrow> unit io" where
  "Connect_enter creds w =
     (case db_connect creds w of
        (Inr conn, w1) \<Rightarrow> sys_stdout_write ''Connected successfully.\<newline>'' w1
      | (Inl (MySQLError err), w1) \<Rightarrow>
          (if errno err = ER_ACCESS_DENIED_ERROR then (Inl (IncorrectLogin err), w1)
           else if errno err = ER_DBACCESS_DENIED_ERROR then (Inl (AccessDenied err), w1)
           else if errno err = ER_BAD_DB_ERROR then (Inl (DatabaseNotFound err), w1)
           else (Inl (MySQLError err), w1))
      | (Inl e, w1) \<Rightarrow> (Inl e, w1))"

definition close_notice :: string where
  "close_notice = ''\<newline>Connection closed.\<newline>''"

definition Connect_exit :: "unit io" where
  "Connect_exit = io_bind connection_close (\<lambda>_. sys_stdout_write close_notice)"

text \<open>
  The statement \<^verbatim>\<open>with Connect(creds) as conn: body\<close>. When \<^verbatim>\<open>__enter__\<close> raises, the body
  and \<^verbatim>\<open>__exit__\<close> do not run. Otherwise \<^verbatim>\<open>__exit__\<close> runs after the body however the body
  ended; it returns \<^verbatim>\<open>None\<close>, so an exception of the body goes on to the caller.
\<close>

definition with_Connect :: "(string \<times> pyval) list \<Rightarrow> 'a io \<Rightarrow> 'a io" where
  "with_Connect creds body w =
     (case Connect_enter creds w of
        (Inl e, w1) \<Rightarrow> (Inl e, w1)
      | (Inr conn, w1) \<Rightarrow>
          (case body w1 of
             (r, w2) \<Rightarrow>
               (case Connect_exit w2 of
                  (Inl e, w3) \<Rightarrow> (Inl e, w3)
                | (Inr u, w3) \<Rightarrow> (r, w3))))"

section \<open>\<^verbatim>\<open>Queries\<close>: the query interface (lines 150-190)\<close>

definition Queries__test :: "unit io" where
  "Queries__test =
     io_bind (cursor_execute Queries_version []) (\<lambda>_.
     io_bind cursor_fetchone (\<lambda>res.
     io_bind (subscript res ''Value'') (\<lambda>v.
     sys_stdout_write (''MySQL v'' @ v @ ''\<newline>''))))"

text \<open>The constructor: the cursor is created, then \<^verbatim>\<open>try: self.__test()\<close> with
  \<^verbatim>\<open>except: raise\<close>.\<close>

definition Queries_init :: "unit io" where
  "Queries_init =
     io_bind connection_cursor (\<lambda>_ w.
       case Queries__test w of
         (Inl e, w') \<Rightarrow> (Inl e, w')
       | (Inr u, w') \<Rightarrow> (Inr u, w'))"

definition Queries_select :: "string \<Rightarrow> (string \<times> string) list option io" where
  "Queries_select word =
     io_bind (cursor_execute Queries__select [(''word'', word)]) (\<lambda>_. cursor_fetchone)"

definition Queries_insert :: "string \<Rightarrow> unit io" where
  "Queries_insert new_word =
     io_bind (cursor_execute Queries__insert [(''new_word'', new_word)]) (\<lambda>_. connection_commit)"

definition Queries_update :: "string \<Rightarrow> string \<Rightarrow> unit io" where
  "Queries_update word new_word =
     io_bind (cursor_execute Queries__update [(''word'', word), (''new_word'', new_word)])
       (\<lambda>_. connection_commit)"

definition Queries_delete :: "string \<Rightarrow> unit io" where
  "Queries_delete word =
     io_bind (cursor_execute Queries__delete [(''word'', word)]) (\<lambda>_. connection_commit)"

section \<open>\<^verbatim>\<open>Shell\<close>: the interactive loop (lines 193-341)\<close>

subsection \<open>What a step of the session leaves alone\<close>

text \<open>
  \<open>keeps w w'\<close>: going from \<open>w\<close> to \<open>w'\<close> read no more input than there was, did not close
  or open the connection, did not touch the loop flag, and wrote no close notice.
\<close>

definition keeps :: "world \<Rightarrow> world \<Rightarrow> bool" where
  "keeps w w' =
     (length (stdin w') \<le> length (stdin w) \<and> closes w' = closes w \<and>
      connected w' = connected w \<and> running w' = running w \<and>
      count_list (stdout w') close_notice = count_list (stdout w) close_notice)"

definition quiet :: "'a io \<Rightarrow> bool" where
  "quiet m = (\<forall>w. keeps w (snd (m w)))"

lemma keeps_refl: "keeps w w"
  by (simp add: keeps_def)

lemma keeps_trans: "keeps w w1 \<Longrightarrow> keeps w1 w2 \<Longrightarrow> keeps w w2"
  by (simp add: keeps_def)

lemma quietD: "quiet m \<Longrightarrow> m w = (r, w') \<Longrightarrow> keeps w w'"
  by (auto simp: quiet_def dest: spec [of _ w])

lemma quiet_return: "quiet (io_return x)"
  by (simp add: quiet_def io_return_def keeps_refl)

lemma quiet_bind:
  assumes "quiet m" and "\<And>x. quiet (f x)"
  shows "quiet (io_bind m f)"
proof (unfold quiet_def, rule allI)
  fix w
  obtain r w1 where m: "m w = (r, w1)" by (cases "m w")
  have k1: "keeps w w1" using assms(1) m by (rule quietD)
  show "keeps w (snd (io_bind m f w))"
  proof (cases r)
    case (Inl e)
    then show ?thesis using m k1 by (simp add: io_bind_def)
  next
    case (Inr x)
    obtain r2 w2 where f: "f x w1 = (r2, w2)" by (cases "f x w1")
    have "keeps w1 w2" using assms(2) f by (rule quietD)
    then show ?thesis using m Inr f k1 by (simp add: io_bind_def keeps_trans)
  qed
qed

lemma quiet_write: "s \<noteq> close_notice \<Longrightarrow> quiet (sys_stdout_write s)"
  by (simp add: quiet_def sys_stdout_write_def keeps_def)

lemma quiet_print: "s @ ''\<newline>'' \<noteq> close_notice \<Longrightarrow> quiet (py_print s)"
  unfolding py_print_def by (rule quiet_write)

lemma quiet_read_event: "quiet read_event"
  by (simp add: quiet_def read_event_def keeps_def split: list.split stdin_event.split)

lemma quiet_input: "prompt \<noteq> close_notice \<Longrightarrow> quiet (py_input prompt)"
  unfolding py_input_def by (intro quiet_bind quiet_write quiet_read_event)

lemma quiet_driver_call: "quiet driver_call"
  by (simp add: quiet_def driver_call_def keeps_def split: list.split option.split)

lemma quiet_run_statement: "quiet (run_statement operation params)"
  by (simp add: quiet_def run_statement_def keeps_def split: option.split)

lemma quiet_handle_unread_result: "quiet handle_unread_result"
  by (simp add: quiet_def handle_unread_result_def keeps_refl)

lemma quiet_execute: "quiet (cursor_execute operation params)"
  unfolding cursor_execute_def
  by (intro quiet_bind quiet_handle_unread_result quiet_driver_call quiet_run_statement)
    (simp add: quiet_def keeps_def)

lemma quiet_fetchone: "quiet cursor_fetchone"
  by (simp add: quiet_def cursor_fetchone_def keeps_def split: list.split)

lemma quiet_commit: "quiet connection_commit"
  unfolding connection_commit_def
  by (intro quiet_bind quiet_handle_unread_result quiet_driver_call)
    (simp add: quiet_def keeps_def)

lemma quiet_subscript: "quiet (subscript res key)"
  by (simp add: quiet_def subscript_def keeps_refl split: option.split)

lemma quiet_select: "quiet (Queries_select word)"
  unfolding Queries_select_def by (intro quiet_bind quiet_execute quiet_fetchone)

lemma quiet_insert: "quiet (Queries_insert new_word)"
  unfolding Queries_insert_def by (intro quiet_bind quiet_execute quiet_commit)

lemma quiet_update: "quiet (Queries_update word new_word)"
  unfolding Queries_update_def by (intro quiet_bind quiet_execute quiet_commit)

lemma input_consumes:
  "py_input prompt w = (Inr s, w') \<Longrightarrow> length (stdin w') < length (stdin w)"
  by (auto simp: py_input_def io_bind_def sys_stdout_write_def read_event_def
      split: list.splits stdin_event.splits)

subsection \<open>The yes/no prompt (lines 334-341)\<close>

definition answers :: "string list" where
  "answers = [''y'', ''Y'', ''yes'', ''Yes'', ''n'', ''N'', ''no'', ''No'']"

definition yes_answers :: "string list" where
  "yes_answers = [''y'', ''Y'', ''yes'', ''Yes'']"

definition no_answers :: "string list" where
  "no_answers = [''n'', ''N'', ''no'', ''No'']"

definition reprompt :: string where
  "reprompt = ''Please answer 'y' or 'yes' for yes, or 'n' or 'no' for no.''"

text \<open>The \<^verbatim>\<open>while\<close> loop of lines 337-339, entered with the first answer.\<close>

function prompt_loop :: "string \<Rightarrow> string \<Rightarrow> string io" where
  "prompt_loop prompt user_input w =
     (if user_input \<notin> set answers then
        (case io_bind (py_print reprompt) (\<lambda>_. py_input prompt) w of
           (Inl e, w') \<Rightarrow> (Inl e, w')
         | (Inr user_input', w') \<Rightarrow> prompt_loop prompt user_input' w')
      else (Inr user_input, w))"
  by pat_completeness auto
termination
  apply (relation "measure (\<lambda>(prompt, user_input, w). length (stdin w))")
   apply simp
  apply (auto simp: io_bind_def py_print_def sys_stdout_write_def py_input_def read_event_def
      split: list.splits stdin_event.splits)
  done

declare prompt_loop.simps [simp del]

definition Shell__prompt :: "string \<Rightarrow> bool option io" where
  "Shell__prompt prompt =
     io_bind (py_input prompt) (\<lambda>user_input.
     io_bind (prompt_loop prompt user_input) (\<lambda>user_input.
     io_return
       (if user_input \<in> set yes_answers then Some True
        else if user_input \<in> set no_answers then Some False
        else None)))"

lemma quiet_prompt_loop:
  "prompt \<noteq> close_notice \<Longrightarrow> keeps w (snd (prompt_loop prompt user_input w))"
proof (induction prompt user_input w rule: prompt_loop.induct)
  case (1 p user_input w)
  show ?case
  proof (cases "user_input \<in> set answers")
    case True
    then show ?thesis by (subst prompt_loop.simps) (simp add: keeps_refl)
  next
    case False
    have "reprompt @ ''\<newline>'' \<noteq> close_notice"
      by (simp add: reprompt_def close_notice_def)
    then have "quiet (py_print reprompt)" by (rule quiet_print)
    moreover have "quiet (py_input p)" using "1.prems" by (rule quiet_input)
    ultimately have q: "quiet (io_bind (py_print reprompt) (\<lambda>_. py_input p))"
      by (intro quiet_bind)
    obtain r w1 where step: "io_bind (py_print reprompt) (\<lambda>_. py_input p) w = (r, w1)"
      by (cases "io_bind (py_print reprompt) (\<lambda>_. py_input p) w")
    have k1: "keeps w w1" using q step by (rule quietD)
    show ?thesis
    proof (cases r)
      case (Inl e)
      then show ?thesis using False step k1 by (subst prompt_loop.simps) simp
    next
      case (Inr u)
      have "keeps w1 (snd (prompt_loop p u w1))"
        using "1.IH" [OF False step [symmetric] Inr "1.prems"] .
      then have "keeps w (snd (prompt_loop p u w1))" using k1 by (rule keeps_trans [rotated])
      then show ?thesis using False step Inr by (subst prompt_loop.simps) simp
    qed
  qed
qed

lemma quiet_prompt:
  assumes "prompt \<noteq> close_notice"
  shows "quiet (Shell__prompt prompt)"
proof -
  have "quiet (py_input prompt)" using assms by (rule quiet_input)
  moreover have "quiet (prompt_loop prompt u)" for u
    unfolding quiet_def using assms quiet_prompt_loop by blast
  ultimately show ?thesis
    unfolding Shell__prompt_def by (intro quiet_bind quiet_return)
qed

lemma input_then_quiet_consumes:
  assumes "\<And>s. quiet (f s)" and "io_bind (py_input prompt) f w = (Inr u, w')"
  shows "length (stdin w') < length (stdin w)"
proof -
  obtain r w1 where i: "py_input prompt w = (r, w1)" by (cases "py_input prompt w")
  show ?thesis
  proof (cases r)
    case (Inl e)
    then show ?thesis using assms(2) i by (simp add: io_bind_def)
  next
    case (Inr s)
    have lt: "length (stdin w1) < length (stdin w)" using i Inr input_consumes by blast
    have "f s w1 = (Inr u, w')" using assms(2) i Inr by (simp add: io_bind_def)
    with assms(1) have "keeps w1 w'" by (rule quietD)
    then show ?thesis using lt by (simp add: keeps_def)
  qed
qed

subsection \<open>One turn of the loop (lines 311-332)\<close>

definition not_found_prompt :: "string \<Rightarrow> string" where
  "not_found_prompt term =
     [CHR 0x27] @ term @ [CHR 0x27] @
     '' not found. Would you like to add it to the dictionary?\<newline>[y/n] ''"

definition found_prompt :: "string \<Rightarrow> string" where
  "found_prompt word = ''Found: '' @ word @ ''. Would you like to update this word?\<newline>[y/n] ''"

definition Shell__run :: "unit io" where
  "Shell__run =
     io_bind (py_input ''What word do you want to add/change: '') (\<lambda>term.
     io_bind (Queries_select term) (\<lambda>response.
       case response of
         None \<Rightarrow>
           io_bind (Shell__prompt (not_found_prompt term)) (\<lambda>addnew.
             if addnew = Some True then
               io_bind (Queries_insert term) (\<lambda>_.
               py_print (term @ '' added to the dictionary.''))
             else io_return ())
       | Some row \<Rightarrow>
           io_bind (subscript response ''word'') (\<lambda>found.
           io_bind (Shell__prompt (found_prompt found)) (\<lambda>update.
             if update = Some True then
               io_bind (subscript response ''word'') (\<lambda>old_word.
               io_bind (py_input (''Update '' @ old_word @ '' as: '')) (\<lambda>new_word.
               io_bind (Queries_update old_word new_word) (\<lambda>_.
               py_print (''Updated '' @ old_word @ '' to '' @ new_word))))
             else io_return ()))))"

lemma added_not_notice: "(term @ '' added to the dictionary.'') @ ''\<newline>'' \<noteq> close_notice"
proof
  assume "(term @ '' added to the dictionary.'') @ ''\<newline>'' = close_notice"
  then have "rev ((term @ '' added to the dictionary.'') @ ''\<newline>'') = rev close_notice"
    by simp
  then show False by (simp add: close_notice_def)
qed

lemma quiet_not_found:
  "quiet (io_bind (Shell__prompt (not_found_prompt t)) (\<lambda>addnew.
             if addnew = Some True then
               io_bind (Queries_insert t) (\<lambda>_.
               py_print (t @ '' added to the dictionary.''))
             else io_return ()))"
proof (rule quiet_bind)
  show "quiet (Shell__prompt (not_found_prompt t))"
    by (rule quiet_prompt) (simp add: not_found_prompt_def close_notice_def)
next
  fix addnew
  have "quiet (io_bind (Queries_insert t) (\<lambda>_. py_print (t @ '' added to the dictionary.'')))"
    by (intro quiet_bind quiet_insert quiet_print added_not_notice)
  then show "quiet (if addnew = Some True then
               io_bind (Queries_insert t) (\<lambda>_.
               py_print (t @ '' added to the dictionary.''))
             else io_return ())"
    by (simp add: quiet_return)
qed

lemma quiet_update_word:
  "quiet (io_bind (subscript response ''word'') (\<lambda>old_word.
               io_bind (py_input (''Update '' @ old_word @ '' as: '')) (\<lambda>new_word.
               io_bind (Queries_update old_word new_word) (\<lambda>_.
               py_print (''Updated '' @ old_word @ '' to '' @ new_word)))))"
proof (intro quiet_bind)
  show "quiet (subscript response ''word'')" by (rule quiet_subscript)
next
  fix old_word
  show "quiet (py_input (''Update '' @ old_word @ '' as: ''))"
    by (rule quiet_input) (simp add: close_notice_def)
next
  fix old_word new_word
  show "quiet (Queries_update old_word new_word)" by (rule quiet_update)
next
  fix old_word new_word
  show "quiet (py_print (''Updated '' @ old_word @ '' to '' @ new_word))"
    by (rule quiet_print) (simp add: close_notice_def)
qed

lemma quiet_found:
  "quiet (io_bind (subscript response ''word'') (\<lambda>found.
           io_bind (Shell__prompt (found_prompt found)) (\<lambda>update.
             if update = Some True then
               io_bind (subscript response ''word'') (\<lambda>old_word.
               io_bind (py_input (''Update '' @ old_word @ '' as: '')) (\<lambda>new_word.
               io_bind (Queries_update old_word new_word) (\<lambda>_.
               py_print (''Updated '' @ old_word @ '' to '' @ new_word))))
             else io_return ())))"
proof (rule quiet_bind)
  show "quiet (subscript response ''word'')" by (rule quiet_subscript)
next
  fix found
  show "quiet (io_bind (Shell__prompt (found_prompt found)) (\<lambda>update.
             if update = Some True then
               io_bind (subscript response ''word'') (\<lambda>old_word.
               io_bind (py_input (''Update '' @ old_word @ '' as: '')) (\<lambda>new_word.
               io_bind (Queries_update old_word new_word) (\<lambda>_.
               py_print (''Updated '' @ old_word @ '' to '' @ new_word))))
             else io_return ()))"
  proof (rule quiet_bind)
    show "quiet (Shell__prompt (found_prompt found))"
      by (rule quiet_prompt) (simp add: found_prompt_def close_notice_def)
  next
    fix update
    show "quiet (if update = Some True then
               io_bind (subscript response ''word'') (\<lambda>old_word.
               io_bind (py_input (''Update '' @ old_word @ '' as: '')) (\<lambda>new_word.
               io_bind (Queries_update old_word new_word) (\<lambda>_.
               py_print (''Updated '' @ old_word @ '' to '' @ new_word))))
             else io_return ())"
      using quiet_update_word [of response] by (simp add: quiet_return)
  qed
qed

lemma quiet_after_input:
  "quiet (io_bind (Queries_select t) (\<lambda>response.
       case response of
         None \<Rightarrow>
           io_bind (Shell__prompt (not_found_prompt t)) (\<lambda>addnew.
             if addnew = Some True then
               io_bind (Queries_insert t) (\<lambda>_.
               py_print (t @ '' added to the dictionary.''))
             else io_return ())
       | Some row \<Rightarrow>
           io_bind (subscript response ''word'') (\<lambda>found.
           io_bind (Shell__prompt (found_prompt found)) (\<lambda>update.
             if update = Some True then
               io_bind (subscript response ''word'') (\<lambda>old_word.
               io_bind (py_input (''Update '' @ old_word @ '' as: '')) (\<lambda>new_word.
               io_bind (Queries_update old_word new_word) (\<lambda>_.
               py_print (''Updated '' @ old_word @ '' to '' @ new_word))))
             else io_return ()))))"
proof (rule quiet_bind)
  show "quiet (Queries_select t)" by (rule quiet_select)
next
  fix response
  show "quiet (case response of
         None \<Rightarrow>
           io_bind (Shell__prompt (not_found_prompt t)) (\<lambda>addnew.
             if addnew = Some True then
               io_bind (Queries_insert t) (\<lambda>_.
               py_print (t @ '' added to the dictionary.''))
             else io_return ())
       | Some row \<Rightarrow>
           io_bind (subscript response ''word'') (\<lambda>found.
           io_bind (Shell__prompt (found_prompt found)) (\<lambda>update.
             if update = Some True then
               io_bind (subscript response ''word'') (\<lambda>old_word.
               io_bind (py_input (''Update '' @ old_word @ '' as: '')) (\<lambda>new_word.
               io_bind (Queries_update old_word new_word) (\<lambda>_.
               py_print (''Updated '' @ old_word @ '' to '' @ new_word))))
             else io_return ())))"
    by (cases response) (simp_all only: option.case quiet_not_found quiet_found)
qed

lemma quiet_Shell__run: "quiet Shell__run"
  unfolding Shell__run_def
  apply (rule quiet_bind)
   apply (rule quiet_input)
   apply (simp add: close_notice_def)
  apply (rule quiet_after_input)
  done

lemma Shell__run_consumes:
  assumes "Shell__run w = (Inr u, w')"
  shows "length (stdin w') < length (stdin w)"
  using assms unfolding Shell__run_def
  by (rule input_then_quiet_consumes [rotated]) (rule quiet_after_input)

text \<open>The loop of lines 292-297: it runs while the flag is set; an exception of a turn
  clears the flag and goes on to the caller.\<close>

function main_loop :: "unit io" where
  "main_loop w =
     (if running w then
        (case Shell__run w of
           (Inl e, w') \<Rightarrow> (Inl e, w'\<lparr>running := False\<rparr>)
         | (Inr u, w') \<Rightarrow> main_loop w')
      else (Inr (), w))"
  by pat_completeness (simp only:)
termination
proof (relation "measure (\<lambda>w. length (stdin w))")
  show "wf (measure (\<lambda>w. length (stdin w)))" by (rule wf_measure)
next
  fix w :: world and r w' u
  assume "(r, w') = Shell__run w" and "r = Inr u"
  then have "Shell__run w = (Inr u, w')" by simp
  then have "length (stdin w') < length (stdin w)" by (rule Shell__run_consumes)
  then show "(w', w) \<in> measure (\<lambda>w. length (stdin w))" by (simp only: in_measure)
qed

declare main_loop.simps [simp del]

subsection \<open>Login and the top level (lines 197-309)\<close>

text \<open>The constructor (lines 205-209) loads the configuration.\<close>

definition Shell_init ::
  "file_arg \<Rightarrow> (string \<Rightarrow> string option) \<Rightarrow> exn + (string \<times> pyval) list" where
  "Shell_init env_file environ =
     (if env_file \<noteq> NoFile then Environ_load env_file environ
      else Environ_load NoFile environ)"

text \<open>\<^verbatim>\<open>str(v)\<close>, as an f-string formats a value.\<close>

fun py_str :: "pyval \<Rightarrow> string" where
  "py_str (PStr s) = s"
| "py_str (PInt n) = (if n < 0 then ''-'' @ show_nat (nat (- n)) else show_nat (nat n))"
| "py_str PNone = ''None''"

definition login_prompt :: "(pyval \<times> pyval \<times> pyval \<times> pyval) io" where
  "login_prompt =
     io_bind (py_input ''What host to connect to (localhost): '') (\<lambda>host.
     io_bind (py_input ''What port to connect to (3306): '') (\<lambda>port.
     io_bind (py_input ''What user to connect to (root): '') (\<lambda>user.
     io_bind (py_input ''What password to connect with: '') (\<lambda>pass.
     io_return (PStr host, PStr port, PStr user, PStr pass)))))"

definition auto_login :: "(string \<times> pyval) list \<Rightarrow> (pyval \<times> pyval \<times> pyval \<times> pyval) io" where
  "auto_login env =
     (let host = dict_get env ''host'' in
      io_bind (py_print (''What host to connect to (localhost): '' @ py_str host)) (\<lambda>_.
      let port = dict_get env ''port'' in
      io_bind (py_print (''What port to connect to (3306): '' @ py_str port)) (\<lambda>_.
      let user = dict_get env ''user'' in
      io_bind (py_print (''What user to connect to (root): '' @ py_str user)) (\<lambda>_.
      io_bind (getpass ''What password to connect with: '') (\<lambda>pass.
      io_return (host, port, user, PStr pass))))))"

text \<open>\<^verbatim>\<open>d.get(k, default)\<close>.\<close>

definition dict_get_default :: "(string \<times> pyval) list \<Rightarrow> string \<Rightarrow> pyval \<Rightarrow> pyval" where
  "dict_get_default d k dflt = (case map_of d k of None \<Rightarrow> dflt | Some v \<Rightarrow> v)"

text \<open>\<^verbatim>\<open>login\<close> (lines 213-242); \<open>debug\<close> is Python's \<^verbatim>\<open>__debug__\<close> (false under \<^verbatim>\<open>-O\<close>).\<close>

definition Shell_login :: "bool \<Rightarrow> (string \<times> pyval) list \<Rightarrow> (string \<times> pyval) list io" where
  "Shell_login debug env =
     io_bind (if debug then login_prompt else auto_login env) (\<lambda>(host, port, user, pass).
     io_return
       [(''host'', host),
        (''port'', port),
        (''user'', user),
        (''password'', pass),
        (''database'', dict_get_default env ''database'' (PStr ''dictionary'')),
        (''auth_plugin'', dict_get_default env ''auth_plugin'' (PStr ''caching_sha2_password''))])"

definition Shell_title :: string where
  "Shell_title = ''# ========== Dictionary ========== #''"

definition Shell_instr :: string where
  "Shell_instr = ''# Press CTRL+C to quit.''"

definition Shell__init :: "unit io" where
  "Shell__init = io_bind (py_print Shell_title) (\<lambda>_. py_print Shell_instr)"

text \<open>\<^verbatim>\<open>str(e)\<close> of an exception; for a \<^verbatim>\<open>KeyError\<close> it is the \<^verbatim>\<open>repr\<close> of the key.\<close>

fun exn_str :: "exn \<Rightarrow> string" where
  "exn_str (ValueError m) = m"
| "exn_str (KeyError k) = py_repr k"
| "exn_str (TypeError m) = m"
| "exn_str EOFError = ''EOF when reading a line''"
| "exn_str KeyboardInterrupt = []"
| "exn_str (MySQLError err) = full_msg err"
| "exn_str (ConnectionFailureError c err m) = m"

text \<open>How a process ends: \<^verbatim>\<open>exit(code)\<close>, a return from \<^verbatim>\<open>run\<close>, or an exception that no
  handler took.\<close>

datatype ending = SystemExit int | Returned | Uncaught exn

text \<open>\<^verbatim>\<open>_exit\<close> (lines 277-282).\<close>

definition Shell__exit :: "string \<Rightarrow> int \<Rightarrow> world \<Rightarrow> ending \<times> world" where
  "Shell__exit exit_msg exit_code w =
     (SystemExit exit_code, snd (py_print (exit_msg @ ''\<newline>Exiting.'') w))"

text \<open>The classes the handlers of \<^verbatim>\<open>run\<close> test, in the class hierarchy of the exceptions:
  \<^verbatim>\<open>KeyboardInterrupt\<close> is the only one that is not an \<^verbatim>\<open>Exception\<close>.\<close>

fun isinstance_IncorrectLogin :: "exn \<Rightarrow> bool" where
  "isinstance_IncorrectLogin (ConnectionFailureError IncorrectLoginClass err m) = True"
| "isinstance_IncorrectLogin _ = False"

fun isinstance_Error :: "exn \<Rightarrow> bool" where
  "isinstance_Error (MySQLError err) = True"
| "isinstance_Error _ = False"

fun isinstance_Exception :: "exn \<Rightarrow> bool" where
  "isinstance_Exception KeyboardInterrupt = False"
| "isinstance_Exception _ = True"

fun isinstance_KeyboardInterrupt :: "exn \<Rightarrow> bool" where
  "isinstance_KeyboardInterrupt KeyboardInterrupt = True"
| "isinstance_KeyboardInterrupt _ = False"

text \<open>The body of the \<^verbatim>\<open>with\<close> statement (lines 289-297).\<close>

definition session_body :: "unit io" where
  "session_body =
     io_bind Queries_init (\<lambda>sql.
     io_bind (\<lambda>w. (Inr (), w\<lparr>running := True\<rparr>)) (\<lambda>_.
     main_loop))"

text \<open>The \<^verbatim>\<open>try\<close> block of \<^verbatim>\<open>run\<close> (lines 286-297).\<close>

definition Shell_run_try :: "bool \<Rightarrow> (string \<times> pyval) list \<Rightarrow> unit io" where
  "Shell_run_try debug env =
     io_bind Shell__init (\<lambda>_.
     io_bind (Shell_login debug env) (\<lambda>credentials.
     with_Connect credentials session_body))"

text \<open>\<^verbatim>\<open>run\<close> with its handlers, in the order of lines 299-309.\<close>

definition Shell_run :: "bool \<Rightarrow> (string \<times> pyval) list \<Rightarrow> world \<Rightarrow> ending \<times> world" where
  "Shell_run debug env w =
     (case Shell_run_try debug env w of
        (Inr u, w') \<Rightarrow> (Returned, w')
      | (Inl e, w') \<Rightarrow>
          if isinstance_IncorrectLogin e then Shell__exit (exn_str e) 0 w'
          else if isinstance_Error e then Shell__exit (exn_str e) 1 w'
          else if isinstance_Exception e then Shell__exit (exn_str e) 1 w'
          else if isinstance_KeyboardInterrupt e then Shell__exit (exn_str e) 0 w'
          else (Uncaught e, w'))"

section \<open>Vocabulary of the claims and example inputs\<close>

text \<open>The number that a string of decimal digits denotes.\<close>

definition decimal :: "string \<Rightarrow> nat" where
  "decimal ds = foldl (\<lambda>n c. 10 * n + digit_val c) 0 ds"

text \<open>What a well-formed line \<^verbatim>\<open>KEY=VALUE\<close> assigns: the text before and after its \<^verbatim>\<open>=\<close>, the
  line's surrounding whitespace trimmed.\<close>

definition key_of :: "string \<Rightarrow> string" where
  "key_of line = takeWhile (\<lambda>c. c \<noteq> CHR ''='') (strip line)"

definition value_of :: "string \<Rightarrow> string" where
  "value_of line = tl (dropWhile (\<lambda>c. c \<noteq> CHR ''='') (strip line))"

text \<open>What the words of claim C9 (a case-insensitive set of tokens) make of a token: \<^verbatim>\<open>y\<close> or
  \<^verbatim>\<open>yes\<close> in any case is a yes, \<^verbatim>\<open>n\<close> or \<^verbatim>\<open>no\<close> in any case is a no, anything else is
  invalid. It is compared with the list of line 337 in the counterexample of C9.\<close>

definition lower :: "char \<Rightarrow> char" where
  "lower c =
     (case map_of (zip ''ABCDEFGHIJKLMNOPQRSTUVWXYZ'' ''abcdefghijklmnopqrstuvwxyz'') c of
        None \<Rightarrow> c
      | Some l \<Rightarrow> l)"

definition case_insensitive_answer :: "string \<Rightarrow> bool option" where
  "case_insensitive_answer token =
     (if map lower token \<in> set [''y'', ''yes''] then Some True
      else if map lower token \<in> set [''n'', ''no''] then Some False
      else None)"

text \<open>\<open>undisturbed w w'\<close>: between \<open>w\<close> and \<open>w'\<close> the connection was not closed and no
  close notice was written.\<close>

definition undisturbed :: "world \<Rightarrow> world \<Rightarrow> bool" where
  "undisturbed w w' =
     (closes w' = closes w \<and>
      count_list (stdout w') close_notice = count_list (stdout w) close_notice)"

text \<open>A world for the examples: nothing typed yet, an empty table, a server that accepts
  every login and a driver that never fails.\<close>

definition idle_world :: world where
  "idle_world =
     \<lparr>stdin = [], stdout = [], connect_outcome = (\<lambda>creds. None), faults = [], words = [],
      committed = [], server_version = ''8.0.36'', issued = [], cursor_rows = [],
      cursor_unread = False, connected = False, closes = 0, running = False\<rparr>"

text \<open>A driver error with the given code.\<close>

definition refused :: "int \<Rightarrow> mysql_error" where
  "refused code = \<lparr>errno = code, msg = ''refused'', full_msg = ''refused (driver)''\<rparr>"

text \<open>The example file of the spec, the same file with a port that is no integer, and with
  the port \<^verbatim>\<open>12\<close> after the separator character \<^verbatim>\<open>0x1C\<close>.\<close>

definition example_env_file :: "string list" where
  "example_env_file =
     [''MYSQL_HOST=example\<newline>'', ''MYSQL_PORT=1234\<newline>'', ''MYSQL_USER=u\<newline>'',
      ''MYSQL_PASSWORD=p\<newline>'', ''MYSQL_DATABASE=d\<newline>'', ''MYSQL_AUTH=a\<newline>'']"

definition example_bad_port_file :: "string list" where
  "example_bad_port_file =
     [''MYSQL_HOST=example\<newline>'', ''MYSQL_PORT=12.5\<newline>'', ''MYSQL_USER=u\<newline>'',
      ''MYSQL_PASSWORD=p\<newline>'', ''MYSQL_DATABASE=d\<newline>'', ''MYSQL_AUTH=a\<newline>'']"

definition example_separator_port_file :: "string list" where
  "example_separator_port_file =
     [''MYSQL_HOST=example\<newline>'', ''MYSQL_PORT='' @ [CHR 0x1C] @ ''12\<newline>'', ''MYSQL_USER=u\<newline>'',
      ''MYSQL_PASSWORD=p\<newline>'', ''MYSQL_DATABASE=d\<newline>'', ''MYSQL_AUTH=a\<newline>'']"

text \<open>Two sessions for the examples: the driver fails the first lookup; the user types a
  word, declines to add it and then presses the interrupt key.\<close>

definition failing_lookup_world :: world where
  "failing_lookup_world =
     idle_world\<lparr>stdin := [Line ''cat''], faults := [None, Some (MySQLError (refused 2013))]\<rparr>"

definition interrupted_world :: world where
  "interrupted_world = idle_world\<lparr>stdin := [Line ''cat'', Line ''n'', Sigint]\<rparr>"

text \<open>The four answers to the questions of \<^verbatim>\<open>login_prompt\<close>.\<close>

definition login_lines :: "stdin_event list" where
  "login_lines = [Line ''localhost'', Line ''3306'', Line ''root'', Line ''secret'']"

section \<open>Properties of the configuration resolver\<close>


lemma split_on_none: "count_list s sep = 0 \<Longrightarrow> split_on sep s = [s]"
  by (induction s) (auto split: if_splits)

lemma split_on_one:
  "count_list s sep = 1 \<Longrightarrow>
   split_on sep s = [takeWhile (\<lambda>c. c \<noteq> sep) s, tl (dropWhile (\<lambda>c. c \<noteq> sep) s)]"
  by (induction s) (auto simp: split_on_none split: if_splits)

lemma count_list_dropWhile: "\<not> P c \<Longrightarrow> count_list (dropWhile P s) c = count_list s c"
  by (induction s) auto

lemma count_list_strip: "count_list (strip l) CHR ''='' = count_list l CHR ''=''"
  by (simp add: strip_def count_list_dropWhile isspace_def whitespace_def)


lemma unpack2_line:
  "count_list l CHR ''='' = 1 \<Longrightarrow>
   unpack2 (split_on CHR ''='' (strip l)) = Inr (key_of l, value_of l)"
  by (simp add: split_on_one count_list_strip key_of_def value_of_def)


lemma read_lines_wellformed:
  "\<forall>l \<in> set lines. count_list l CHR ''='' = 1 \<Longrightarrow>
   read_lines lines envvars =
     Inr (foldl (\<lambda>d l. AList.update (key_of l) (value_of l) d) envvars lines)"
  by (induction lines arbitrary: envvars) (simp_all add: unpack2_line)

lemma map_of_foldl_update:
  "map_of (foldl (\<lambda>d l. AList.update (key_of l) (value_of l) d) envvars lines) k =
   (case map_of (rev (map (\<lambda>l. (key_of l, value_of l)) lines)) k of
      None \<Rightarrow> map_of envvars k
    | Some v \<Rightarrow> Some v)"
  by (induction lines arbitrary: envvars) (auto simp: update_conv' map_add_def split: option.splits)

lemma map_config_find:
  "map_config items envvars d =
     (case find (\<lambda>name. map_of envvars name = None) (map snd items) of
        Some name \<Rightarrow> Inl (KeyError name)
      | None \<Rightarrow>
          Inr (foldl (\<lambda>d (key, val). AList.update key (PStr (the (map_of envvars val))) d) d items))"
  by (induction items envvars d rule: map_config.induct) (auto split: option.splits)

lemma parsed_key_missing:
  "(map_of (foldl (\<lambda>d l. AList.update (key_of l) (value_of l) d) [] lines) name = None) =
   (name \<notin> set (map key_of lines))"
proof -
  have "(map_of (rev (map (\<lambda>l. (key_of l, value_of l)) lines)) name = None) =
        (name \<notin> set (map key_of lines))"
    by (simp add: map_of_eq_None_iff image_image)
  then show ?thesis by (auto simp: map_of_foldl_update split: option.splits)
qed

lemma load_text_file:
  "\<forall>l \<in> set lines. count_list l CHR ''='' = 1 \<Longrightarrow>
   resolve_source (TextFile lines) environ =
     map_config CONFIG_MAP (foldl (\<lambda>d l. AList.update (key_of l) (value_of l) d) [] lines) []"
  by (simp add: resolve_source_def read_lines_wellformed)

lemma resolved_port:
  assumes "resolve_source src environ = Inr params"
  shows "(\<exists>s. dict_get params ''port'' = PStr s) \<or> dict_get params ''port'' = PInt 3306"
proof (cases src)
  case NoFile
  show ?thesis
  proof (cases "list_all truthy (map (\<lambda>v. environ_get environ v (PInt 0)) (map snd CONFIG_MAP))")
    case True
    then obtain p where "environ ''MYSQL_PORT'' = Some p"
      by (auto simp: CONFIG_MAP_def environ_get_def split: option.splits)
    then show ?thesis using assms NoFile True
      by (auto simp: resolve_source_def dict_comp_def CONFIG_MAP_def getenv_def environ_get_def
          dict_get_def)
  next
    case False
    then show ?thesis using assms NoFile
      by (auto simp: resolve_source_def dict_comp_def DEFAULT_ENV_def dict_get_def)
  qed
next
  case (TextFile lines)
  then obtain envvars where m: "map_config CONFIG_MAP envvars [] = Inr params"
    using assms by (auto simp: resolve_source_def split: sum.splits)
  then show ?thesis
    by (auto simp: map_config_find CONFIG_MAP_def dict_get_def split: option.splits)
next
  case OtherObject
  then show ?thesis using assms
    by (auto simp: resolve_source_def dict_comp_def DEFAULT_ENV_def dict_get_def)
qed

section \<open>The claims about the resolver\<close>

text \<open>A run of digits is read to its end, or to the first character that is neither a digit
  nor an underscore.\<close>

lemma digit_run_digits:
  "\<forall>c \<in> set ds. is_digit c \<Longrightarrow>
   digit_run acc cnt ds =
     Some (cnt + length ds, foldl (\<lambda>a c. 10 * a + digit_val c) acc ds, [])"
  by (induction ds arbitrary: acc cnt) auto

lemma digit_run_stops:
  "\<forall>c \<in> set ds. is_digit c \<Longrightarrow> \<not> is_digit x \<Longrightarrow> x \<noteq> CHR ''_'' \<Longrightarrow>
   digit_run acc cnt (ds @ x # xs) =
     Some (cnt + length ds, foldl (\<lambda>a c. 10 * a + digit_val c) acc ds, x # xs)"
  by (induction ds arbitrary: acc cnt) auto

lemma digit_not_space: "is_digit c \<Longrightarrow> \<not> is_int_space c \<and> c \<noteq> CHR ''-'' \<and> c \<noteq> CHR ''+''"
  by (auto simp: is_digit_def is_int_space_def int_space_def)

text \<open>A string of digits denotes its decimal value, up to the limit of 4300 digits.\<close>

lemma int_literal_digits:
  assumes "ds \<noteq> []" and "\<forall>c \<in> set ds. is_digit c"
  shows "int_literal ds =
     (if length ds > int_max_str_digits then Over_limit (length ds)
      else Literal (int (decimal ds)))"
proof -
  from assms obtain d ds' where ds: "ds = d # ds'" by (cases ds) auto
  have d: "is_digit d" and r: "\<forall>c \<in> set ds'. is_digit c" using assms(2) ds by auto
  have "digit_run (digit_val d) 1 ds' =
      Some (1 + length ds', foldl (\<lambda>a c. 10 * a + digit_val c) (digit_val d) ds', [])"
    using r by (rule digit_run_digits)
  then show ?thesis using d digit_not_space [OF d] by (simp add: int_literal_def ds decimal_def)
qed

text \<open>More digits than the limit are refused before what follows them is looked at.\<close>

lemma int_literal_over_limit:
  assumes "ds \<noteq> []" and "\<forall>c \<in> set ds. is_digit c" and "length ds > int_max_str_digits"
    and "\<not> is_digit x" and "x \<noteq> CHR ''_''"
  shows "int_literal (ds @ x # xs) = Over_limit (length ds)"
proof -
  from assms obtain d ds' where ds: "ds = d # ds'" by (cases ds) auto
  have d: "is_digit d" and r: "\<forall>c \<in> set ds'. is_digit c" using assms(2) ds by auto
  have "digit_run (digit_val d) 1 (ds' @ x # xs) =
      Some (1 + length ds', foldl (\<lambda>a c. 10 * a + digit_val c) (digit_val d) ds', x # xs)"
    using r assms(4,5) by (rule digit_run_stops)
  then show ?thesis using d digit_not_space [OF d] assms(3) by (simp add: int_literal_def ds)
qed

text \<open>A literal is made of digits, underscores, a sign and the whitespace of \<^verbatim>\<open>int\<close> only.\<close>

lemma digit_run_chars:
  "digit_run acc cnt cs = Some (k, n, rest) \<Longrightarrow>
   \<exists>run. cs = run @ rest \<and> (\<forall>c \<in> set run. is_digit c \<or> c = CHR ''_'')"
proof (induction acc cnt cs rule: digit_run.induct)
  case (1 acc cnt)
  then show ?case by simp
next
  case (2 acc cnt c cs)
  show ?case
  proof (cases "is_digit c")
    case True
    with 2 obtain run where "cs = run @ rest" "\<forall>c \<in> set run. is_digit c \<or> c = CHR ''_''"
      by auto
    then have "c # cs = (c # run) @ rest \<and> (\<forall>x \<in> set (c # run). is_digit x \<or> x = CHR ''_'')"
      using True by simp
    then show ?thesis by blast
  next
    case nd: False
    show ?thesis
    proof (cases "c = CHR ''_''")
      case True
      with nd "2.prems" obtain d ds where cs: "cs = d # ds" and d: "is_digit d"
        and r: "digit_run (10 * acc + digit_val d) (Suc cnt) ds = Some (k, n, rest)"
        by (cases cs) (auto split: if_splits)
      from "2.IH"(2) [OF nd True cs d r]
      obtain run where "ds = run @ rest" "\<forall>c \<in> set run. is_digit c \<or> c = CHR ''_''"
        by auto
      then have "c # cs = (c # d # run) @ rest \<and>
          (\<forall>x \<in> set (c # d # run). is_digit x \<or> x = CHR ''_'')"
        using True cs d by simp
      then show ?thesis by blast
    next
      case False
      with nd "2.prems" have "rest = c # cs" by simp
      then have "c # cs = [] @ rest \<and> (\<forall>x \<in> set []. is_digit x \<or> x = CHR ''_'')" by simp
      then show ?thesis by blast
    qed
  qed
qed

lemma int_literal_chars:
  assumes "int_literal s = Literal n"
  shows "\<forall>c \<in> set s. is_digit c \<or> is_int_space c \<or> c = CHR ''+'' \<or> c = CHR ''-'' \<or> c = CHR ''_''"
proof -
  obtain c cs where t: "dropWhile is_int_space s = c # cs"
    using assms by (cases "dropWhile is_int_space s") (simp_all add: int_literal_def)
  define u where "u = (if c = CHR ''-'' \<or> c = CHR ''+'' then cs else c # cs)"
  have lit: "(case u of
             [] \<Rightarrow> Invalid_literal
           | d # ds \<Rightarrow>
               if \<not> is_digit d then Invalid_literal
               else
                 (case digit_run (digit_val d) 1 ds of
                    None \<Rightarrow> Invalid_literal
                  | Some (cnt, n, rest) \<Rightarrow>
                      if cnt > int_max_str_digits then Over_limit cnt
                      else if dropWhile is_int_space rest \<noteq> [] then Invalid_literal
                      else Literal (if c = CHR ''-'' then - int n else int n))) = Literal n"
    using assms t unfolding int_literal_def u_def by simp
  then obtain d ds where u: "u = d # ds" by (cases u) simp_all
  have d: "is_digit d" using lit u by (simp split: if_splits)
  obtain cnt m rest where r: "digit_run (digit_val d) 1 ds = Some (cnt, m, rest)"
    and ws: "dropWhile is_int_space rest = []"
    using lit u d by (auto split: option.splits if_splits)
  from digit_run_chars [OF r] obtain run where
    run: "ds = run @ rest" "\<forall>c \<in> set run. is_digit c \<or> c = CHR ''_''" by blast
  have "\<forall>c \<in> set rest. is_int_space c" using ws by (simp add: dropWhile_eq_Nil_conv)
  then have "\<forall>x \<in> set u. is_digit x \<or> is_int_space x \<or> x = CHR ''_''"
    using u d run by auto
  then have "\<forall>x \<in> set (c # cs).
      is_digit x \<or> is_int_space x \<or> x = CHR ''+'' \<or> x = CHR ''-'' \<or> x = CHR ''_''"
    unfolding u_def by (auto split: if_splits)
  moreover have "\<forall>x \<in> set (takeWhile is_int_space s). is_int_space x"
    by (auto dest: set_takeWhileD)
  moreover have "set s = set (takeWhile is_int_space s) \<union> set (dropWhile is_int_space s)"
    by (metis set_append takeWhile_dropWhile_id)
  ultimately show ?thesis using t by auto
qed

text \<open>\<^verbatim>\<open>int\<close> on some strings: plain digits, a sign, an underscore between digits and the
  whitespace it skips are read; a separator character \<^verbatim>\<open>0x1C\<close>, a blank after the sign, a
  doubled or trailing underscore, a decimal point and the empty string are not. 4300 digits
  are read, 4301 are not, with or without a letter after them.\<close>

lemma int_literal_accepts:
  "int_literal ''1234'' = Literal 1234"
  "int_literal ''-12'' = Literal (- 12)"
  "int_literal ''+0012'' = Literal 12"
  "int_literal ''1_000'' = Literal 1000"
  "int_literal [CHR 0x09, CHR 0x0B, CHR ''7'', CHR 0x0C, CHR 0x0D, CHR '' '', CHR ''\<newline>''] = Literal 7"
  by (simp_all add: int_literal_def is_int_space_def int_space_def is_digit_def digit_val_def
      int_max_str_digits_def)

lemma int_literal_rejects:
  "int_literal [CHR 0x1C, CHR ''1'', CHR ''2''] = Invalid_literal"
  "int_literal [CHR ''1'', CHR ''2'', CHR 0x1F] = Invalid_literal"
  "int_literal ''+ 1'' = Invalid_literal"
  "int_literal ''1 2'' = Invalid_literal"
  "int_literal ''1__2'' = Invalid_literal"
  "int_literal ''12_'' = Invalid_literal"
  "int_literal ''_12'' = Invalid_literal"
  "int_literal ''12.5'' = Invalid_literal"
  "int_literal ''abc'' = Invalid_literal"
  "int_literal [] = Invalid_literal"
  by (simp_all add: int_literal_def is_int_space_def int_space_def is_digit_def digit_val_def
      int_max_str_digits_def)

lemma int_literal_limit:
  "\<exists>n. int_literal (replicate 4300 CHR ''1'') = Literal n"
  "int_literal (replicate 4301 CHR ''1'') = Over_limit 4301"
  "int_literal (replicate 4301 CHR ''1'' @ ''x'') = Over_limit 4301"
proof -
  have d: "\<forall>c \<in> set (replicate k CHR ''1''). is_digit c" for k
    by (simp add: is_digit_def)
  show "\<exists>n. int_literal (replicate 4300 CHR ''1'') = Literal n"
    using int_literal_digits [OF _ d, of 4300]
    by (simp add: int_max_str_digits_def)
  show "int_literal (replicate 4301 CHR ''1'') = Over_limit 4301"
    using int_literal_digits [OF _ d, of 4301]
    by (simp add: int_max_str_digits_def)
  show "int_literal (replicate 4301 CHR ''1'' @ ''x'') = Over_limit 4301"
    using int_literal_over_limit [OF _ d, of 4301 "CHR ''x''" "[]"]
    by (simp add: int_max_str_digits_def is_digit_def)
qed

text \<open>
  C1 (amended). With no file, when all six variables are present and non-empty, \<^verbatim>\<open>load\<close>
  returns exactly their values, the port as the integer that \<^verbatim>\<open>MYSQL_PORT\<close> denotes, provided
  \<^verbatim>\<open>MYSQL_PORT\<close> is an integer literal of at most 4300 digits (for a string of decimal digits,
  its decimal value); when it is no literal, or one of more digits, \<^verbatim>\<open>load\<close> returns nothing and
  raises the \<^verbatim>\<open>ValueError\<close> of \<^verbatim>\<open>int\<close>. When any of the six is missing or empty, \<^verbatim>\<open>load\<close>
  returns exactly the defaults: never a mix.
\<close>

theorem environ_all_or_nothing:
  "(environ ''MYSQL_HOST'' = Some h \<and> h \<noteq> [] \<and> environ ''MYSQL_PORT'' = Some p \<and> p \<noteq> [] \<and>
    environ ''MYSQL_USER'' = Some u \<and> u \<noteq> [] \<and> environ ''MYSQL_PASSWORD'' = Some pw \<and> pw \<noteq> [] \<and>
    environ ''MYSQL_DATABASE'' = Some db \<and> db \<noteq> [] \<and> environ ''MYSQL_AUTH'' = Some a \<and> a \<noteq> [] \<longrightarrow>
    Environ_load NoFile environ =
      (case int_literal p of
         Invalid_literal \<Rightarrow> Inl (ValueError (invalid_literal p))
       | Over_limit digits \<Rightarrow> Inl (ValueError (exceeds_limit digits))
       | Literal n \<Rightarrow>
           Inr [(''host'', PStr h), (''port'', PInt n), (''user'', PStr u),
                (''password'', PStr pw), (''database'', PStr db), (''auth_plugin'', PStr a)]) \<and>
    ((\<forall>c \<in> set p. is_digit c) \<and> length p \<le> 4300 \<longrightarrow>
      Environ_load NoFile environ =
        Inr [(''host'', PStr h), (''port'', PInt (int (decimal p))), (''user'', PStr u),
             (''password'', PStr pw), (''database'', PStr db), (''auth_plugin'', PStr a)])) \<and>
   ((\<exists>v \<in> set (map snd CONFIG_MAP). environ v = None \<or> environ v = Some []) \<longrightarrow>
    Environ_load NoFile environ =
      Inr [(''host'', PStr ''localhost''), (''port'', PInt 3306), (''user'', PStr ''root''),
           (''password'', PStr ''Password''), (''database'', PStr ''dictionary''),
           (''auth_plugin'', PStr ''caching_sha2_password'')])"
proof (intro conjI impI)
  assume all: "environ ''MYSQL_HOST'' = Some h \<and> h \<noteq> [] \<and> environ ''MYSQL_PORT'' = Some p \<and> p \<noteq> [] \<and>
    environ ''MYSQL_USER'' = Some u \<and> u \<noteq> [] \<and> environ ''MYSQL_PASSWORD'' = Some pw \<and> pw \<noteq> [] \<and>
    environ ''MYSQL_DATABASE'' = Some db \<and> db \<noteq> [] \<and> environ ''MYSQL_AUTH'' = Some a \<and> a \<noteq> []"
  then have "resolve_source NoFile environ =
      Inr [(''host'', PStr h), (''port'', PStr p), (''user'', PStr u), (''password'', PStr pw),
           (''database'', PStr db), (''auth_plugin'', PStr a)]"
    by (simp add: resolve_source_def CONFIG_MAP_def environ_get_def getenv_def dict_comp_def)
  then show "Environ_load NoFile environ =
      (case int_literal p of
         Invalid_literal \<Rightarrow> Inl (ValueError (invalid_literal p))
       | Over_limit digits \<Rightarrow> Inl (ValueError (exceeds_limit digits))
       | Literal n \<Rightarrow>
           Inr [(''host'', PStr h), (''port'', PInt n), (''user'', PStr u),
                (''password'', PStr pw), (''database'', PStr db), (''auth_plugin'', PStr a)])"
    by (simp add: Environ_load_def coerce_port_def dict_get_def split: int_reading.split)
next
  assume all: "environ ''MYSQL_HOST'' = Some h \<and> h \<noteq> [] \<and> environ ''MYSQL_PORT'' = Some p \<and> p \<noteq> [] \<and>
    environ ''MYSQL_USER'' = Some u \<and> u \<noteq> [] \<and> environ ''MYSQL_PASSWORD'' = Some pw \<and> pw \<noteq> [] \<and>
    environ ''MYSQL_DATABASE'' = Some db \<and> db \<noteq> [] \<and> environ ''MYSQL_AUTH'' = Some a \<and> a \<noteq> []"
    and dg: "(\<forall>c \<in> set p. is_digit c) \<and> length p \<le> 4300"
  from all have "resolve_source NoFile environ =
      Inr [(''host'', PStr h), (''port'', PStr p), (''user'', PStr u), (''password'', PStr pw),
           (''database'', PStr db), (''auth_plugin'', PStr a)]"
    by (simp add: resolve_source_def CONFIG_MAP_def environ_get_def getenv_def dict_comp_def)
  moreover have "int_literal p = Literal (int (decimal p))"
    using all dg by (simp add: int_literal_digits int_max_str_digits_def)
  ultimately show "Environ_load NoFile environ =
        Inr [(''host'', PStr h), (''port'', PInt (int (decimal p))), (''user'', PStr u),
             (''password'', PStr pw), (''database'', PStr db), (''auth_plugin'', PStr a)]"
    by (simp add: Environ_load_def coerce_port_def dict_get_def)
next
  assume "\<exists>v \<in> set (map snd CONFIG_MAP). environ v = None \<or> environ v = Some []"
  then obtain v where v: "v \<in> set (map snd CONFIG_MAP)" "environ v = None \<or> environ v = Some []"
    by blast
  from v(2) have "\<not> truthy (environ_get environ v (PInt 0))"
    by (auto simp: environ_get_def)
  with v(1) have "\<not> list_all truthy (map (\<lambda>v. environ_get environ v (PInt 0)) (map snd CONFIG_MAP))"
    unfolding list_all_iff by auto
  then have "resolve_source NoFile environ = Inr DEFAULT_ENV"
    by (simp add: resolve_source_def dict_comp_def DEFAULT_ENV_def)
  then show "Environ_load NoFile environ =
      Inr [(''host'', PStr ''localhost''), (''port'', PInt 3306), (''user'', PStr ''root''),
           (''password'', PStr ''Password''), (''database'', PStr ''dictionary''),
           (''auth_plugin'', PStr ''caching_sha2_password'')]"
    by (simp add: Environ_load_def coerce_port_def dict_get_def DEFAULT_ENV_def)
qed

text \<open>Witness for C1: an environment that sets all six (port \<^verbatim>\<open>1234\<close>), one whose
  \<^verbatim>\<open>MYSQL_USER\<close> is empty, one whose port is \<^verbatim>\<open>12\<close> after the separator \<^verbatim>\<open>0x1C\<close>, which \<^verbatim>\<open>int\<close>
  does not skip, and one whose port has 4301 digits.\<close>

theorem environ_all_or_nothing_witness:
  "Environ_load NoFile
     (map_of [(''MYSQL_HOST'', ''example''), (''MYSQL_PORT'', ''1234''), (''MYSQL_USER'', ''u''),
              (''MYSQL_PASSWORD'', ''p''), (''MYSQL_DATABASE'', ''d''), (''MYSQL_AUTH'', ''a'')]) =
     Inr [(''host'', PStr ''example''), (''port'', PInt 1234), (''user'', PStr ''u''),
          (''password'', PStr ''p''), (''database'', PStr ''d''), (''auth_plugin'', PStr ''a'')] \<and>
   Environ_load NoFile
     (map_of [(''MYSQL_HOST'', ''example''), (''MYSQL_PORT'', ''1234''), (''MYSQL_USER'', ''''),
              (''MYSQL_PASSWORD'', ''p''), (''MYSQL_DATABASE'', ''d''), (''MYSQL_AUTH'', ''a'')]) =
     Inr [(''host'', PStr ''localhost''), (''port'', PInt 3306), (''user'', PStr ''root''),
          (''password'', PStr ''Password''), (''database'', PStr ''dictionary''),
          (''auth_plugin'', PStr ''caching_sha2_password'')] \<and>
   Environ_load NoFile
     (map_of [(''MYSQL_HOST'', ''example''), (''MYSQL_PORT'', [CHR 0x1C, CHR ''1'', CHR ''2'']),
              (''MYSQL_USER'', ''u''), (''MYSQL_PASSWORD'', ''p''), (''MYSQL_DATABASE'', ''d''),
              (''MYSQL_AUTH'', ''a'')]) =
     Inl (ValueError (invalid_literal [CHR 0x1C, CHR ''1'', CHR ''2''])) \<and>
   Environ_load NoFile
     (map_of [(''MYSQL_HOST'', ''example''), (''MYSQL_PORT'', replicate 4301 CHR ''1''),
              (''MYSQL_USER'', ''u''), (''MYSQL_PASSWORD'', ''p''), (''MYSQL_DATABASE'', ''d''),
              (''MYSQL_AUTH'', ''a'')]) =
     Inl (ValueError (exceeds_limit 4301))"
proof (intro conjI)
  have "decimal ''1234'' = 1234" by (simp add: decimal_def digit_val_def)
  then show "Environ_load NoFile
     (map_of [(''MYSQL_HOST'', ''example''), (''MYSQL_PORT'', ''1234''), (''MYSQL_USER'', ''u''),
              (''MYSQL_PASSWORD'', ''p''), (''MYSQL_DATABASE'', ''d''), (''MYSQL_AUTH'', ''a'')]) =
     Inr [(''host'', PStr ''example''), (''port'', PInt 1234), (''user'', PStr ''u''),
          (''password'', PStr ''p''), (''database'', PStr ''d''), (''auth_plugin'', PStr ''a'')]"
    using environ_all_or_nothing
      [of "map_of [(''MYSQL_HOST'', ''example''), (''MYSQL_PORT'', ''1234''), (''MYSQL_USER'', ''u''),
              (''MYSQL_PASSWORD'', ''p''), (''MYSQL_DATABASE'', ''d''), (''MYSQL_AUTH'', ''a'')]"
          "''example''" "''1234''" "''u''" "''p''" "''d''" "''a''"]
    by (simp add: is_digit_def int_literal_accepts)
next
  show "Environ_load NoFile
     (map_of [(''MYSQL_HOST'', ''example''), (''MYSQL_PORT'', ''1234''), (''MYSQL_USER'', ''''),
              (''MYSQL_PASSWORD'', ''p''), (''MYSQL_DATABASE'', ''d''), (''MYSQL_AUTH'', ''a'')]) =
     Inr [(''host'', PStr ''localhost''), (''port'', PInt 3306), (''user'', PStr ''root''),
          (''password'', PStr ''Password''), (''database'', PStr ''dictionary''),
          (''auth_plugin'', PStr ''caching_sha2_password'')]"
    using environ_all_or_nothing
      [of "map_of [(''MYSQL_HOST'', ''example''), (''MYSQL_PORT'', ''1234''), (''MYSQL_USER'', ''''),
              (''MYSQL_PASSWORD'', ''p''), (''MYSQL_DATABASE'', ''d''), (''MYSQL_AUTH'', ''a'')]"]
    by (simp add: CONFIG_MAP_def)
next
  show "Environ_load NoFile
     (map_of [(''MYSQL_HOST'', ''example''), (''MYSQL_PORT'', [CHR 0x1C, CHR ''1'', CHR ''2'']),
              (''MYSQL_USER'', ''u''), (''MYSQL_PASSWORD'', ''p''), (''MYSQL_DATABASE'', ''d''),
              (''MYSQL_AUTH'', ''a'')]) =
     Inl (ValueError (invalid_literal [CHR 0x1C, CHR ''1'', CHR ''2'']))"
    using environ_all_or_nothing
      [of "map_of [(''MYSQL_HOST'', ''example''), (''MYSQL_PORT'', [CHR 0x1C, CHR ''1'', CHR ''2'']),
              (''MYSQL_USER'', ''u''), (''MYSQL_PASSWORD'', ''p''), (''MYSQL_DATABASE'', ''d''),
              (''MYSQL_AUTH'', ''a'')]"
          "''example''" "[CHR 0x1C, CHR ''1'', CHR ''2'']" "''u''" "''p''" "''d''" "''a''"]
    by (simp add: int_literal_rejects)
next
  have ne: "replicate 4301 CHR ''1'' \<noteq> []" by simp
  show "Environ_load NoFile
     (map_of [(''MYSQL_HOST'', ''example''), (''MYSQL_PORT'', replicate 4301 CHR ''1''),
              (''MYSQL_USER'', ''u''), (''MYSQL_PASSWORD'', ''p''), (''MYSQL_DATABASE'', ''d''),
              (''MYSQL_AUTH'', ''a'')]) =
     Inl (ValueError (exceeds_limit 4301))"
    using ne environ_all_or_nothing
      [of "map_of [(''MYSQL_HOST'', ''example''), (''MYSQL_PORT'', replicate 4301 CHR ''1''),
              (''MYSQL_USER'', ''u''), (''MYSQL_PASSWORD'', ''p''), (''MYSQL_DATABASE'', ''d''),
              (''MYSQL_AUTH'', ''a'')]"
          "''example''" "replicate 4301 CHR ''1''" "''u''" "''p''" "''d''" "''a''"]
    by (simp add: int_literal_limit)
qed

text \<open>
  C1 as stated fails: with all six variables present and non-empty but \<^verbatim>\<open>MYSQL_PORT=abc\<close>,
  \<^verbatim>\<open>load\<close> returns no parameters; it raises \<^verbatim>\<open>ValueError\<close>.
\<close>

theorem environ_text_port_counterexample:
  "Environ_load NoFile
     (map_of [(''MYSQL_HOST'', ''example''), (''MYSQL_PORT'', ''abc''), (''MYSQL_USER'', ''u''),
              (''MYSQL_PASSWORD'', ''p''), (''MYSQL_DATABASE'', ''d''), (''MYSQL_AUTH'', ''a'')]) =
     Inl (ValueError (invalid_literal ''abc''))"
  by (simp add: Environ_load_def resolve_source_def CONFIG_MAP_def environ_get_def getenv_def
      dict_comp_def coerce_port_def dict_get_def int_literal_rejects)



text \<open>
  C7. Whatever the source (file, environment or defaults), a parameter set that \<^verbatim>\<open>load\<close>
  returns has an integer under \<^verbatim>\<open>port\<close>. The port value of a source is the value under
  \<^verbatim>\<open>port\<close> of the parameter set assembled from it (lines 65-87), which line 89 reads with
  \<^verbatim>\<open>env.get('port')\<close>: it is a string, or the integer 3306 of the defaults. When it is a
  string that is not an integer literal, or a literal of more digits than the interpreter's
  limit, \<^verbatim>\<open>load\<close> raises the \<^verbatim>\<open>ValueError\<close> of \<^verbatim>\<open>int\<close> (the invalid-port error); when it is a
  literal within the limit, \<^verbatim>\<open>load\<close> returns the parameter set with the port replaced by its
  integer. In particular a port of up to 4300 decimal digits is replaced by its decimal
  value, and a port that holds any character other than a digit, a sign, an underscore or
  the whitespace of \<^verbatim>\<open>int\<close> raises. An integer port is kept as it is, and the defaults come
  back with the port 3306.
\<close>

theorem port_coerced:
  "(Environ_load src environ = Inr env \<longrightarrow> (\<exists>n. dict_get env ''port'' = PInt n)) \<and>
   (resolve_source src environ = Inr params \<longrightarrow>
      (\<exists>s. dict_get params ''port'' = PStr s) \<or> dict_get params ''port'' = PInt 3306) \<and>
   (resolve_source src environ = Inr params \<and> dict_get params ''port'' = PStr s \<and>
    int_literal s = Invalid_literal \<longrightarrow>
      Environ_load src environ = Inl (ValueError (invalid_literal s))) \<and>
   (resolve_source src environ = Inr params \<and> dict_get params ''port'' = PStr s \<and>
    int_literal s = Over_limit digits \<longrightarrow>
      Environ_load src environ = Inl (ValueError (exceeds_limit digits))) \<and>
   (resolve_source src environ = Inr params \<and> dict_get params ''port'' = PStr s \<and>
    int_literal s = Literal n \<longrightarrow>
      Environ_load src environ = Inr (AList.update ''port'' (PInt n) params)) \<and>
   (resolve_source src environ = Inr params \<and> dict_get params ''port'' = PStr s \<and>
    s \<noteq> [] \<and> (\<forall>c \<in> set s. is_digit c) \<and> length s \<le> 4300 \<longrightarrow>
      Environ_load src environ = Inr (AList.update ''port'' (PInt (int (decimal s))) params)) \<and>
   (resolve_source src environ = Inr params \<and> dict_get params ''port'' = PStr s \<and>
    (\<exists>c \<in> set s. \<not> is_digit c \<and> \<not> is_int_space c \<and>
                   c \<noteq> CHR ''+'' \<and> c \<noteq> CHR ''-'' \<and> c \<noteq> CHR ''_'') \<longrightarrow>
      (\<exists>m. Environ_load src environ = Inl (ValueError m))) \<and>
   (resolve_source src environ = Inr params \<and> dict_get params ''port'' = PInt n \<longrightarrow>
      Environ_load src environ = Inr (AList.update ''port'' (PInt n) params)) \<and>
   (src = OtherObject \<or>
    src = NoFile \<and> (\<exists>v \<in> set (map snd CONFIG_MAP). environ v = None \<or> environ v = Some []) \<longrightarrow>
      Environ_load src environ =
        Inr [(''host'', PStr ''localhost''), (''port'', PInt 3306), (''user'', PStr ''root''),
             (''password'', PStr ''Password''), (''database'', PStr ''dictionary''),
             (''auth_plugin'', PStr ''caching_sha2_password'')])"
proof (intro conjI impI)
  assume "Environ_load src environ = Inr env"
  then obtain params n where "env = AList.update ''port'' (PInt n) params"
    by (auto simp: Environ_load_def coerce_port_def split: sum.splits)
  then show "\<exists>n. dict_get env ''port'' = PInt n"
    by (simp add: dict_get_def update_conv')
next
  assume "resolve_source src environ = Inr params"
  then show "(\<exists>s. dict_get params ''port'' = PStr s) \<or> dict_get params ''port'' = PInt 3306"
    by (rule resolved_port)
next
  assume "resolve_source src environ = Inr params \<and> dict_get params ''port'' = PStr s \<and>
    int_literal s = Invalid_literal"
  then show "Environ_load src environ = Inl (ValueError (invalid_literal s))"
    by (simp add: Environ_load_def coerce_port_def)
next
  assume "resolve_source src environ = Inr params \<and> dict_get params ''port'' = PStr s \<and>
    int_literal s = Over_limit digits"
  then show "Environ_load src environ = Inl (ValueError (exceeds_limit digits))"
    by (simp add: Environ_load_def coerce_port_def)
next
  assume "resolve_source src environ = Inr params \<and> dict_get params ''port'' = PStr s \<and>
    int_literal s = Literal n"
  then show "Environ_load src environ = Inr (AList.update ''port'' (PInt n) params)"
    by (simp add: Environ_load_def coerce_port_def)
next
  assume "resolve_source src environ = Inr params \<and> dict_get params ''port'' = PStr s \<and>
    s \<noteq> [] \<and> (\<forall>c \<in> set s. is_digit c) \<and> length s \<le> 4300"
  then show "Environ_load src environ =
      Inr (AList.update ''port'' (PInt (int (decimal s))) params)"
    by (simp add: Environ_load_def coerce_port_def int_literal_digits int_max_str_digits_def)
next
  assume a: "resolve_source src environ = Inr params \<and> dict_get params ''port'' = PStr s \<and>
    (\<exists>c \<in> set s. \<not> is_digit c \<and> \<not> is_int_space c \<and>
                   c \<noteq> CHR ''+'' \<and> c \<noteq> CHR ''-'' \<and> c \<noteq> CHR ''_'')"
  then have "\<forall>n. int_literal s \<noteq> Literal n"
    using int_literal_chars [of s] by blast
  then show "\<exists>m. Environ_load src environ = Inl (ValueError m)"
    using a by (cases "int_literal s") (simp_all add: Environ_load_def coerce_port_def)
next
  assume "resolve_source src environ = Inr params \<and> dict_get params ''port'' = PInt n"
  then show "Environ_load src environ = Inr (AList.update ''port'' (PInt n) params)"
    by (simp add: Environ_load_def coerce_port_def)
next
  assume d: "src = OtherObject \<or>
    src = NoFile \<and> (\<exists>v \<in> set (map snd CONFIG_MAP). environ v = None \<or> environ v = Some [])"
  have "resolve_source src environ = Inr DEFAULT_ENV"
  proof (cases "src = OtherObject")
    case True
    then show ?thesis by (simp add: resolve_source_def dict_comp_def DEFAULT_ENV_def)
  next
    case False
    with d obtain v where
      v: "src = NoFile" "v \<in> set (map snd CONFIG_MAP)" "environ v = None \<or> environ v = Some []"
      by blast
    from v(3) have "\<not> truthy (environ_get environ v (PInt 0))"
      by (auto simp: environ_get_def)
    with v(2) have
      "\<not> list_all truthy (map (\<lambda>v. environ_get environ v (PInt 0)) (map snd CONFIG_MAP))"
      unfolding list_all_iff by auto
    then show ?thesis using v(1) by (simp add: resolve_source_def dict_comp_def DEFAULT_ENV_def)
  qed
  then show "Environ_load src environ =
        Inr [(''host'', PStr ''localhost''), (''port'', PInt 3306), (''user'', PStr ''root''),
             (''password'', PStr ''Password''), (''database'', PStr ''dictionary''),
             (''auth_plugin'', PStr ''caching_sha2_password'')]"
    by (simp add: Environ_load_def coerce_port_def dict_get_def DEFAULT_ENV_def)
qed

lemma example_env_file_resolved:
  "resolve_source (TextFile example_env_file) Map.empty =
     Inr [(''host'', PStr ''example''), (''port'', PStr ''1234''), (''user'', PStr ''u''),
          (''password'', PStr ''p''), (''database'', PStr ''d''), (''auth_plugin'', PStr ''a'')]"
  by (simp add: example_env_file_def resolve_source_def strip_def isspace_def whitespace_def
      CONFIG_MAP_def)

lemma example_bad_port_file_resolved:
  "resolve_source (TextFile example_bad_port_file) Map.empty =
     Inr [(''host'', PStr ''example''), (''port'', PStr ''12.5''), (''user'', PStr ''u''),
          (''password'', PStr ''p''), (''database'', PStr ''d''), (''auth_plugin'', PStr ''a'')]"
  by (simp add: example_bad_port_file_def resolve_source_def strip_def isspace_def whitespace_def
      CONFIG_MAP_def)

lemma example_separator_port_file_resolved:
  "resolve_source (TextFile example_separator_port_file) Map.empty =
     Inr [(''host'', PStr ''example''), (''port'', PStr [CHR 0x1C, CHR ''1'', CHR ''2'']),
          (''user'', PStr ''u''), (''password'', PStr ''p''), (''database'', PStr ''d''),
          (''auth_plugin'', PStr ''a'')]"
  by (simp add: example_separator_port_file_def resolve_source_def strip_def isspace_def
      whitespace_def CONFIG_MAP_def)

text \<open>Witness for C7: the spec's example file gives host \<^verbatim>\<open>example\<close> and the integer 1234;
  the same file with \<^verbatim>\<open>MYSQL_PORT=12.5\<close>, or with the separator \<^verbatim>\<open>0x1C\<close> before \<^verbatim>\<open>12\<close>, raises,
  and so does an environment whose port has 4301 digits; an argument that is no file gives
  the defaults with the port 3306.\<close>

theorem port_coerced_witness:
  "Environ_load (TextFile example_env_file) Map.empty =
     Inr [(''host'', PStr ''example''), (''port'', PInt 1234), (''user'', PStr ''u''),
          (''password'', PStr ''p''), (''database'', PStr ''d''), (''auth_plugin'', PStr ''a'')] \<and>
   Environ_load (TextFile example_bad_port_file) Map.empty =
     Inl (ValueError (invalid_literal ''12.5'')) \<and>
   Environ_load (TextFile example_separator_port_file) Map.empty =
     Inl (ValueError (invalid_literal [CHR 0x1C, CHR ''1'', CHR ''2''])) \<and>
   Environ_load NoFile
     (map_of [(''MYSQL_HOST'', ''example''), (''MYSQL_PORT'', replicate 4301 CHR ''1''),
              (''MYSQL_USER'', ''u''), (''MYSQL_PASSWORD'', ''p''), (''MYSQL_DATABASE'', ''d''),
              (''MYSQL_AUTH'', ''a'')]) =
     Inl (ValueError (exceeds_limit 4301)) \<and>
   Environ_load OtherObject Map.empty =
     Inr [(''host'', PStr ''localhost''), (''port'', PInt 3306), (''user'', PStr ''root''),
          (''password'', PStr ''Password''), (''database'', PStr ''dictionary''),
          (''auth_plugin'', PStr ''caching_sha2_password'')]"
proof (intro conjI)
  show "Environ_load (TextFile example_env_file) Map.empty =
     Inr [(''host'', PStr ''example''), (''port'', PInt 1234), (''user'', PStr ''u''),
          (''password'', PStr ''p''), (''database'', PStr ''d''), (''auth_plugin'', PStr ''a'')]"
    using port_coerced [of "TextFile example_env_file" Map.empty _
        "[(''host'', PStr ''example''), (''port'', PStr ''1234''), (''user'', PStr ''u''),
          (''password'', PStr ''p''), (''database'', PStr ''d''), (''auth_plugin'', PStr ''a'')]"
        "''1234''" _ 1234]
    by (simp add: example_env_file_resolved int_literal_accepts dict_get_def)
next
  show "Environ_load (TextFile example_bad_port_file) Map.empty =
     Inl (ValueError (invalid_literal ''12.5''))"
    using port_coerced [of "TextFile example_bad_port_file" Map.empty _
        "[(''host'', PStr ''example''), (''port'', PStr ''12.5''), (''user'', PStr ''u''),
          (''password'', PStr ''p''), (''database'', PStr ''d''), (''auth_plugin'', PStr ''a'')]"
        "''12.5''"]
    by (simp add: example_bad_port_file_resolved int_literal_rejects dict_get_def)
next
  show "Environ_load (TextFile example_separator_port_file) Map.empty =
     Inl (ValueError (invalid_literal [CHR 0x1C, CHR ''1'', CHR ''2'']))"
    using port_coerced [of "TextFile example_separator_port_file" Map.empty _
        "[(''host'', PStr ''example''), (''port'', PStr [CHR 0x1C, CHR ''1'', CHR ''2'']),
          (''user'', PStr ''u''), (''password'', PStr ''p''), (''database'', PStr ''d''),
          (''auth_plugin'', PStr ''a'')]"
        "[CHR 0x1C, CHR ''1'', CHR ''2'']"]
    by (simp add: example_separator_port_file_resolved int_literal_rejects dict_get_def)
next
  have r: "resolve_source NoFile
     (map_of [(''MYSQL_HOST'', ''example''), (''MYSQL_PORT'', replicate 4301 CHR ''1''),
              (''MYSQL_USER'', ''u''), (''MYSQL_PASSWORD'', ''p''), (''MYSQL_DATABASE'', ''d''),
              (''MYSQL_AUTH'', ''a'')]) =
     Inr [(''host'', PStr ''example''), (''port'', PStr (replicate 4301 CHR ''1'')),
          (''user'', PStr ''u''), (''password'', PStr ''p''), (''database'', PStr ''d''),
          (''auth_plugin'', PStr ''a'')]"
    by (simp add: resolve_source_def CONFIG_MAP_def environ_get_def getenv_def dict_comp_def)
  show "Environ_load NoFile
     (map_of [(''MYSQL_HOST'', ''example''), (''MYSQL_PORT'', replicate 4301 CHR ''1''),
              (''MYSQL_USER'', ''u''), (''MYSQL_PASSWORD'', ''p''), (''MYSQL_DATABASE'', ''d''),
              (''MYSQL_AUTH'', ''a'')]) =
     Inl (ValueError (exceeds_limit 4301))"
    using port_coerced [of NoFile
        "map_of [(''MYSQL_HOST'', ''example''), (''MYSQL_PORT'', replicate 4301 CHR ''1''),
              (''MYSQL_USER'', ''u''), (''MYSQL_PASSWORD'', ''p''), (''MYSQL_DATABASE'', ''d''),
              (''MYSQL_AUTH'', ''a'')]" _
        "[(''host'', PStr ''example''), (''port'', PStr (replicate 4301 CHR ''1'')),
          (''user'', PStr ''u''), (''password'', PStr ''p''), (''database'', PStr ''d''),
          (''auth_plugin'', PStr ''a'')]"
        "replicate 4301 CHR ''1''" 4301] r
    by (simp add: int_literal_limit dict_get_def)
next
  show "Environ_load OtherObject Map.empty =
     Inr [(''host'', PStr ''localhost''), (''port'', PInt 3306), (''user'', PStr ''root''),
          (''password'', PStr ''Password''), (''database'', PStr ''dictionary''),
          (''auth_plugin'', PStr ''caching_sha2_password'')]"
    using port_coerced [of OtherObject Map.empty] by simp
qed

text \<open>
  C10. For a file whose lines are all of the form \<^verbatim>\<open>KEY=VALUE\<close> and whose keys omit one of
  the six recognized names, \<^verbatim>\<open>load(file)\<close> raises \<^verbatim>\<open>KeyError\<close> for the first omitted name, in
  the order of \<^verbatim>\<open>__CONFIG_MAP\<close>: the reading of a file never falls back to the defaults.
\<close>

theorem file_missing_key_raises:
  "(\<forall>l \<in> set lines. count_list l CHR ''='' = 1) \<Longrightarrow>
   (\<exists>name \<in> set (map snd CONFIG_MAP). name \<notin> set (map key_of lines)) \<Longrightarrow>
   (\<exists>name. find (\<lambda>name. name \<notin> set (map key_of lines)) (map snd CONFIG_MAP) = Some name \<and>
      Environ_load (TextFile lines) environ = Inl (KeyError name))"
proof -
  assume wf: "\<forall>l \<in> set lines. count_list l CHR ''='' = 1"
    and missing: "\<exists>name \<in> set (map snd CONFIG_MAP). name \<notin> set (map key_of lines)"
  let ?envvars = "foldl (\<lambda>d l. AList.update (key_of l) (value_of l) d) [] lines"
  have same: "(\<lambda>name. map_of ?envvars name = None) = (\<lambda>name. name \<notin> set (map key_of lines))"
    by (rule ext) (rule parsed_key_missing)
  from missing obtain name where
    found: "find (\<lambda>name. name \<notin> set (map key_of lines)) (map snd CONFIG_MAP) = Some name"
    by (cases "find (\<lambda>name. name \<notin> set (map key_of lines)) (map snd CONFIG_MAP)")
      (auto simp: find_None_iff)
  have "resolve_source (TextFile lines) environ = map_config CONFIG_MAP ?envvars []"
    using wf by (rule load_text_file)
  also have "\<dots> = Inl (KeyError name)"
    using found by (simp add: map_config_find same)
  finally have "Environ_load (TextFile lines) environ = Inl (KeyError name)"
    by (simp add: Environ_load_def)
  with found show ?thesis by blast
qed

text \<open>Witness for C10: a file that sets host and port only; the user name is the first
  name it omits.\<close>

theorem file_missing_key_raises_witness:
  "Environ_load (TextFile [''MYSQL_HOST=example\<newline>'', ''MYSQL_PORT=1234\<newline>'']) Map.empty =
     Inl (KeyError ''MYSQL_USER'')"
proof -
  have keys: "key_of ''MYSQL_HOST=example\<newline>'' = ''MYSQL_HOST''"
    "key_of ''MYSQL_PORT=1234\<newline>'' = ''MYSQL_PORT''"
    by (simp_all add: key_of_def strip_def isspace_def whitespace_def)
  show ?thesis
    using file_missing_key_raises [of "[''MYSQL_HOST=example\<newline>'', ''MYSQL_PORT=1234\<newline>'']" Map.empty]
    by (simp add: keys CONFIG_MAP_def)
qed

section \<open>The claims about the connection handler and the queries\<close>

text \<open>
  C3. When \<^verbatim>\<open>db.connect\<close> raises a driver error, \<^verbatim>\<open>__enter__\<close> classifies it by its code:
  \<^verbatim>\<open>ER_ACCESS_DENIED_ERROR\<close> gives \<^verbatim>\<open>IncorrectLogin\<close> with the fixed message about user and
  password, \<^verbatim>\<open>ER_DBACCESS_DENIED_ERROR\<close> gives \<^verbatim>\<open>AccessDenied\<close> with the driver's message,
  \<^verbatim>\<open>ER_BAD_DB_ERROR\<close> gives \<^verbatim>\<open>DatabaseNotFound\<close> with the driver's message, and an error with
  any other code is raised again as it is. Nothing is written and the world is unchanged.
\<close>

theorem connection_failure_classified:
  "connect_outcome w creds = Some (MySQLError err) \<Longrightarrow>
   (errno err = ER_ACCESS_DENIED_ERROR \<longrightarrow>
      Connect_enter creds w =
        (Inl (ConnectionFailureError IncorrectLoginClass err
                ''Could not login to host with user/password provided.''), w)) \<and>
   (errno err = ER_DBACCESS_DENIED_ERROR \<longrightarrow>
      Connect_enter creds w = (Inl (ConnectionFailureError AccessDeniedClass err (msg err)), w)) \<and>
   (errno err = ER_BAD_DB_ERROR \<longrightarrow>
      Connect_enter creds w = (Inl (ConnectionFailureError DatabaseNotFoundClass err (msg err)), w)) \<and>
   (errno err \<notin> {ER_ACCESS_DENIED_ERROR, ER_DBACCESS_DENIED_ERROR, ER_BAD_DB_ERROR} \<longrightarrow>
      Connect_enter creds w = (Inl (MySQLError err), w))"
  by (simp add: Connect_enter_def db_connect_def IncorrectLogin_def AccessDenied_def
      DatabaseNotFound_def ER_ACCESS_DENIED_ERROR_def ER_DBACCESS_DENIED_ERROR_def
      ER_BAD_DB_ERROR_def)

text \<open>Witness for C3: the server refuses with the codes 1045, 1044, 1049 and 2003.\<close>

theorem connection_failure_classified_witness:
  "fst (Connect_enter [] (idle_world\<lparr>connect_outcome := (\<lambda>creds. Some (MySQLError (refused 1045)))\<rparr>)) =
     Inl (ConnectionFailureError IncorrectLoginClass (refused 1045)
            ''Could not login to host with user/password provided.'') \<and>
   fst (Connect_enter [] (idle_world\<lparr>connect_outcome := (\<lambda>creds. Some (MySQLError (refused 1044)))\<rparr>)) =
     Inl (ConnectionFailureError AccessDeniedClass (refused 1044) ''refused'') \<and>
   fst (Connect_enter [] (idle_world\<lparr>connect_outcome := (\<lambda>creds. Some (MySQLError (refused 1049)))\<rparr>)) =
     Inl (ConnectionFailureError DatabaseNotFoundClass (refused 1049) ''refused'') \<and>
   fst (Connect_enter [] (idle_world\<lparr>connect_outcome := (\<lambda>creds. Some (MySQLError (refused 2003)))\<rparr>)) =
     Inl (MySQLError (refused 2003))"
  using
    connection_failure_classified
      [of "idle_world\<lparr>connect_outcome := (\<lambda>creds. Some (MySQLError (refused 1045)))\<rparr>" "[]" "refused 1045"]
    connection_failure_classified
      [of "idle_world\<lparr>connect_outcome := (\<lambda>creds. Some (MySQLError (refused 1044)))\<rparr>" "[]" "refused 1044"]
    connection_failure_classified
      [of "idle_world\<lparr>connect_outcome := (\<lambda>creds. Some (MySQLError (refused 1049)))\<rparr>" "[]" "refused 1049"]
    connection_failure_classified
      [of "idle_world\<lparr>connect_outcome := (\<lambda>creds. Some (MySQLError (refused 2003)))\<rparr>" "[]" "refused 2003"]
  by (simp add: refused_def ER_ACCESS_DENIED_ERROR_def ER_DBACCESS_DENIED_ERROR_def
      ER_BAD_DB_ERROR_def)

lemma execute_ok_nil:
  "faults w = [] \<Longrightarrow> \<not> cursor_unread w \<Longrightarrow>
   cursor_execute operation params w =
     run_statement operation params (w\<lparr>issued := issued w @ [(operation, params)]\<rparr>)"
  by (simp add: cursor_execute_def io_bind_def driver_call_def handle_unread_result_def)

lemma execute_ok_cons:
  "faults w = None # fs \<Longrightarrow> \<not> cursor_unread w \<Longrightarrow>
   cursor_execute operation params w =
     run_statement operation params
       (w\<lparr>issued := issued w @ [(operation, params)], faults := fs\<rparr>)"
  by (simp add: cursor_execute_def io_bind_def driver_call_def handle_unread_result_def)

lemma execute_fault:
  "faults w = Some e # fs \<Longrightarrow> \<not> cursor_unread w \<Longrightarrow>
   cursor_execute operation params w =
     (Inl e, w\<lparr>issued := issued w @ [(operation, params)], faults := fs\<rparr>)"
  by (simp add: cursor_execute_def io_bind_def driver_call_def handle_unread_result_def)


lemma Queries_init_new_cursor:
  "Queries_init w = Queries__test (w\<lparr>cursor_rows := [], cursor_unread := False\<rparr>)"
  by (simp add: Queries_init_def io_bind_def connection_cursor_def split: prod.split sum.split)

text \<open>
  C8. The constructor of \<^verbatim>\<open>Queries\<close> issues the version statement. When the driver does not
  fail it, the constructor returns and has written \<^verbatim>\<open>MySQL v\<close> and the server's version. When
  the driver raises \<open>e\<close> on it, the constructor raises that same \<open>e\<close> to its caller (this
  is the spec's connection-unverified failure) and has written nothing.
\<close>

theorem Queries_init_self_test:
  "(faults w = [] \<or> (\<exists>fs. faults w = None # fs) \<longrightarrow>
      fst (Queries_init w) = Inr () \<and>
      issued (snd (Queries_init w)) = issued w @ [(Queries_version, [])] \<and>
      stdout (snd (Queries_init w)) = stdout w @ [''MySQL v'' @ server_version w @ ''\<newline>'']) \<and>
   (faults w = Some e # fs \<longrightarrow>
      fst (Queries_init w) = Inl e \<and>
      issued (snd (Queries_init w)) = issued w @ [(Queries_version, [])] \<and>
      stdout (snd (Queries_init w)) = stdout w)"
proof (intro conjI impI)
  let ?w0 = "w\<lparr>cursor_rows := [], cursor_unread := False\<rparr>"
  assume ok: "faults w = [] \<or> (\<exists>fs. faults w = None # fs)"
  have "\<exists>w'. Queries__test ?w0 = (Inr (), w') \<and>
      issued w' = issued w @ [(Queries_version, [])] \<and>
      stdout w' = stdout w @ [''MySQL v'' @ server_version w @ ''\<newline>'']"
    using ok
    by (auto simp: Queries__test_def io_bind_def execute_ok_nil execute_ok_cons
        run_statement_def cursor_fetchone_def subscript_def sys_stdout_write_def)
  then obtain w' where t: "Queries__test ?w0 = (Inr (), w')"
    "issued w' = issued w @ [(Queries_version, [])]"
    "stdout w' = stdout w @ [''MySQL v'' @ server_version w @ ''\<newline>'']"
    by blast
  show "fst (Queries_init w) = Inr ()" by (simp add: Queries_init_new_cursor t)
  show "issued (snd (Queries_init w)) = issued w @ [(Queries_version, [])]"
    by (simp add: Queries_init_new_cursor t)
  show "stdout (snd (Queries_init w)) = stdout w @ [''MySQL v'' @ server_version w @ ''\<newline>'']"
    by (simp add: Queries_init_new_cursor t)
next
  let ?w0 = "w\<lparr>cursor_rows := [], cursor_unread := False\<rparr>"
  assume bad: "faults w = Some e # fs"
  have t: "Queries__test ?w0 =
      (Inl e, ?w0\<lparr>issued := issued w @ [(Queries_version, [])], faults := fs\<rparr>)"
    using bad by (simp add: Queries__test_def io_bind_def execute_fault)
  show "fst (Queries_init w) = Inl e" by (simp add: Queries_init_new_cursor t)
  show "issued (snd (Queries_init w)) = issued w @ [(Queries_version, [])]"
    by (simp add: Queries_init_new_cursor t)
  show "stdout (snd (Queries_init w)) = stdout w" by (simp add: Queries_init_new_cursor t)
qed

text \<open>Witness for C8: a driver that answers, and one that drops the connection on the
  first statement.\<close>

theorem Queries_init_self_test_witness:
  "fst (Queries_init idle_world) = Inr () \<and>
   stdout (snd (Queries_init idle_world)) = [''MySQL v8.0.36\<newline>''] \<and>
   fst (Queries_init (idle_world\<lparr>faults := [Some (MySQLError (refused 2013))]\<rparr>)) =
     Inl (MySQLError (refused 2013)) \<and>
   stdout (snd (Queries_init (idle_world\<lparr>faults := [Some (MySQLError (refused 2013))]\<rparr>))) = []"
  using Queries_init_self_test [of idle_world]
    Queries_init_self_test
      [of "idle_world\<lparr>faults := [Some (MySQLError (refused 2013))]\<rparr>" "MySQLError (refused 2013)" "[]"]
  by (simp add: idle_world_def)












section \<open>The claims about the interactive loop\<close>

lemma prompt_loop_valid: "v \<in> set answers \<Longrightarrow> prompt_loop p v w = (Inr v, w)"
  by (subst prompt_loop.simps) simp

lemma prompt_loop_invalid:
  "t \<notin> set answers \<Longrightarrow> stdin w = Line t' # rest \<Longrightarrow>
   prompt_loop p t w =
     prompt_loop p t' (w\<lparr>stdout := stdout w @ [reprompt @ ''\<newline>'', p], stdin := rest\<rparr>)"
  by (subst prompt_loop.simps)
    (simp add: io_bind_def py_print_def sys_stdout_write_def py_input_def read_event_def)

lemma prompt_loop_run:
  "\<forall>t \<in> set bad. t \<notin> set answers \<Longrightarrow> v \<in> set answers \<Longrightarrow>
   stdin w = map Line (tl (bad @ [v])) @ rest \<Longrightarrow>
   prompt_loop p (hd (bad @ [v])) w =
     (Inr v, w\<lparr>stdout := stdout w @ concat (map (\<lambda>t. [reprompt @ ''\<newline>'', p]) bad),
               stdin := rest\<rparr>)"
proof (induction bad arbitrary: w)
  case Nil
  then have "rest = stdin w" by simp
  then show ?case using Nil.prems(2) by (simp add: prompt_loop_valid)
next
  case (Cons b bs)
  let ?w = "w\<lparr>stdout := stdout w @ [reprompt @ ''\<newline>'', p],
               stdin := map Line (tl (bs @ [v])) @ rest\<rparr>"
  have "stdin w = Line (hd (bs @ [v])) # map Line (tl (bs @ [v])) @ rest"
    using Cons.prems(3) by (cases bs) simp_all
  moreover have "b \<notin> set answers" using Cons.prems(1) by simp
  ultimately have "prompt_loop p b w = prompt_loop p (hd (bs @ [v])) ?w"
    by (rule prompt_loop_invalid [rotated])
  also have "\<dots> = (Inr v, ?w\<lparr>stdout := stdout ?w @ concat (map (\<lambda>t. [reprompt @ ''\<newline>'', p]) bs),
               stdin := rest\<rparr>)"
    using Cons.prems by (intro Cons.IH) simp_all
  finally show ?case by simp
qed

text \<open>
  C9 (amended). The valid tokens are exactly the eight of line 337: \<^verbatim>\<open>y Y yes Yes\<close> (yes) and
  \<^verbatim>\<open>n N no No\<close> (no). When the keyboard delivers any number of other tokens and then a valid
  one, \<^verbatim>\<open>_prompt\<close> writes the prompt, then for each invalid token the re-prompt message and
  the prompt again, and returns the boolean of the valid token; the input after that token
  is left unread.
\<close>

theorem yes_no_prompt:
  "\<forall>t \<in> set bad. t \<notin> set answers \<Longrightarrow> v \<in> set answers \<Longrightarrow>
   stdin w = map Line bad @ Line v # rest \<Longrightarrow>
   Shell__prompt p w =
     (Inr (Some (v \<in> set yes_answers)),
      w\<lparr>stdout := stdout w @ p # concat (map (\<lambda>t. [reprompt @ ''\<newline>'', p]) bad),
        stdin := rest\<rparr>)"
proof -
  assume bad: "\<forall>t \<in> set bad. t \<notin> set answers" and v: "v \<in> set answers"
    and inp: "stdin w = map Line bad @ Line v # rest"
  let ?w = "w\<lparr>stdout := stdout w @ [p], stdin := map Line (tl (bad @ [v])) @ rest\<rparr>"
  have "stdin w = Line (hd (bad @ [v])) # map Line (tl (bad @ [v])) @ rest"
    using inp by (cases bad) simp_all
  then have first: "py_input p w = (Inr (hd (bad @ [v])), ?w)"
    by (simp add: py_input_def io_bind_def sys_stdout_write_def read_event_def)
  have loop: "prompt_loop p (hd (bad @ [v])) ?w =
      (Inr v, ?w\<lparr>stdout := stdout ?w @ concat (map (\<lambda>t. [reprompt @ ''\<newline>'', p]) bad),
                stdin := rest\<rparr>)"
    using bad v by (intro prompt_loop_run) simp_all
  have pol: "(if v \<in> set yes_answers then Some True
              else if v \<in> set no_answers then Some False else None) =
             Some (v \<in> set yes_answers)"
    using v by (auto simp: answers_def yes_answers_def no_answers_def)
  show ?thesis
    unfolding Shell__prompt_def by (simp add: io_bind_def first loop io_return_def pol)
qed

text \<open>Witness for C9: \<^verbatim>\<open>maybe\<close> and \<^verbatim>\<open>YES\<close> are re-prompted, \<^verbatim>\<open>No\<close> is taken as no, and the
  next line stays on the input.\<close>

theorem yes_no_prompt_witness:
  "Shell__prompt ''[y/n] ''
     (idle_world\<lparr>stdin := [Line ''maybe'', Line ''YES'', Line ''No'', Line ''next'']\<rparr>) =
   (Inr (Some False),
    idle_world\<lparr>stdout :=
          [''[y/n] '', reprompt @ ''\<newline>'', ''[y/n] '', reprompt @ ''\<newline>'', ''[y/n] ''],
        stdin := [Line ''next'']\<rparr>)"
  using yes_no_prompt
    [of "[''maybe'', ''YES'']" "''No''"
        "idle_world\<lparr>stdin := [Line ''maybe'', Line ''YES'', Line ''No'', Line ''next'']\<rparr>"
        "[Line ''next'']" "''[y/n] ''"]
  by (simp add: answers_def yes_answers_def idle_world_def)

text \<open>
  C9 as stated fails: it counts \<^verbatim>\<open>YES\<close> as a valid yes. Given \<^verbatim>\<open>YES\<close> and then \<^verbatim>\<open>n\<close>, the
  prompt does not return true at \<^verbatim>\<open>YES\<close>: it writes the re-prompt message, reads on and
  returns false.
\<close>

theorem uppercase_answer_counterexample:
  "case_insensitive_answer ''YES'' = Some True \<and>
   fst (Shell__prompt ''[y/n] '' (idle_world\<lparr>stdin := [Line ''YES'', Line ''n'']\<rparr>)) =
     Inr (Some False) \<and>
   stdout (snd (Shell__prompt ''[y/n] '' (idle_world\<lparr>stdin := [Line ''YES'', Line ''n'']\<rparr>))) =
     [''[y/n] '', reprompt @ ''\<newline>'', ''[y/n] '']"
proof -
  have c: "case_insensitive_answer ''YES'' = Some True"
    by (simp add: case_insensitive_answer_def lower_def)
  let ?w = "idle_world\<lparr>stdin := [Line ''YES'', Line ''n'']\<rparr>"
  have "\<forall>t \<in> set [''YES'']. t \<notin> set answers" "''n'' \<in> set answers"
    by (simp_all add: answers_def)
  then have "prompt_loop ''[y/n] '' (hd ([''YES''] @ [''n'']))
       (?w\<lparr>stdout := stdout ?w @ [''[y/n] ''], stdin := map Line (tl ([''YES''] @ [''n''])) @ []\<rparr>) =
     (Inr ''n'',
      ?w\<lparr>stdout := stdout ?w @ [''[y/n] ''], stdin := map Line (tl ([''YES''] @ [''n''])) @ []\<rparr>
        \<lparr>stdout := stdout (?w\<lparr>stdout := stdout ?w @ [''[y/n] ''],
                              stdin := map Line (tl ([''YES''] @ [''n''])) @ []\<rparr>) @
                   concat (map (\<lambda>t. [reprompt @ ''\<newline>'', ''[y/n] '']) [''YES'']),
         stdin := []\<rparr>)"
    by (intro prompt_loop_run) simp_all
  then have "Shell__prompt ''[y/n] '' ?w =
     (Inr (Some False),
      ?w\<lparr>stdout := [''[y/n] '', reprompt @ ''\<newline>'', ''[y/n] ''], stdin := []\<rparr>)"
    by (simp add: Shell__prompt_def io_bind_def py_input_def sys_stdout_write_def read_event_def
        io_return_def yes_answers_def no_answers_def idle_world_def)
  then show ?thesis using c by simp
qed

section \<open>The claims about the session: closing the connection, exit codes\<close>

lemma quiet_Queries_init: "quiet Queries_init"
proof -
  have "quiet Queries__test"
    unfolding Queries__test_def
  proof (intro quiet_bind)
    show "quiet (cursor_execute Queries_version [])" by (rule quiet_execute)
    show "quiet cursor_fetchone" by (rule quiet_fetchone)
    show "quiet (subscript res ''Value'')" for res by (rule quiet_subscript)
    show "quiet (sys_stdout_write (''MySQL v'' @ v @ ''\<newline>''))" for v
      by (rule quiet_write) (simp add: close_notice_def)
  qed
  moreover have "quiet connection_cursor"
    by (simp add: quiet_def connection_cursor_def keeps_def)
  ultimately have "quiet (io_bind connection_cursor (\<lambda>_. Queries__test))"
    by (intro quiet_bind)
  moreover have "Queries_init = io_bind connection_cursor (\<lambda>_. Queries__test)"
    by (rule ext) (simp add: Queries_init_def io_bind_def split: prod.split sum.split)
  ultimately show ?thesis by simp
qed

lemma main_loop_stopped: "\<not> running w \<Longrightarrow> main_loop w = (Inr (), w)"
  by (subst main_loop.simps) simp

lemma main_loop_raise:
  "running w \<Longrightarrow> Shell__run w = (Inl e, w') \<Longrightarrow> main_loop w = (Inl e, w'\<lparr>running := False\<rparr>)"
  by (subst main_loop.simps) simp

lemma main_loop_continue:
  "running w \<Longrightarrow> Shell__run w = (Inr u, w') \<Longrightarrow> main_loop w = main_loop w'"
  by (subst main_loop.simps) simp

lemma keeps_undisturbed: "keeps w w' \<Longrightarrow> undisturbed w w'"
  by (simp add: keeps_def undisturbed_def)

lemma main_loop_undisturbed: "undisturbed w (snd (main_loop w))"
proof (induction w rule: main_loop.induct)
  case (1 w)
  show ?case
  proof (cases "running w")
    case False
    then show ?thesis by (simp add: main_loop_stopped undisturbed_def)
  next
    case True
    obtain r w1 where step: "Shell__run w = (r, w1)" by (cases "Shell__run w")
    have k: "keeps w w1" using quiet_Shell__run step by (rule quietD)
    show ?thesis
    proof (cases r)
      case (Inl e)
      then have "main_loop w = (Inl e, w1\<lparr>running := False\<rparr>)"
        using True step by (simp add: main_loop_raise)
      then show ?thesis using k by (simp add: keeps_def undisturbed_def)
    next
      case (Inr u)
      then have "main_loop w = main_loop w1" using True step by (simp add: main_loop_continue)
      moreover have "undisturbed w1 (snd (main_loop w1))"
        using "1.IH" [OF True step [symmetric] Inr] .
      ultimately show ?thesis using k by (simp add: keeps_def undisturbed_def)
    qed
  qed
qed

text \<open>While the flag is set the loop can only end by an exception.\<close>

lemma main_loop_raises: "running w \<Longrightarrow> \<exists>e. fst (main_loop w) = Inl e"
proof (induction w rule: main_loop.induct)
  case (1 w)
  obtain r w1 where step: "Shell__run w = (r, w1)" by (cases "Shell__run w")
  have k: "keeps w w1" using quiet_Shell__run step by (rule quietD)
  show ?case
  proof (cases r)
    case (Inl e)
    then show ?thesis using "1.prems" step by (simp add: main_loop_raise)
  next
    case (Inr u)
    have "running w1" using k "1.prems" by (simp add: keeps_def)
    then have "\<exists>e. fst (main_loop w1) = Inl e"
      using "1.IH" [OF "1.prems" step [symmetric] Inr] by simp
    then show ?thesis using "1.prems" step Inr by (simp add: main_loop_continue)
  qed
qed

lemma session_body_undisturbed: "undisturbed w (snd (session_body w))"
proof -
  obtain r w1 where i: "Queries_init w = (r, w1)" by (cases "Queries_init w")
  have k: "undisturbed w w1"
    using quiet_Queries_init i by (intro keeps_undisturbed) (rule quietD)
  show ?thesis
  proof (cases r)
    case (Inl e)
    then show ?thesis using i k by (simp add: session_body_def io_bind_def)
  next
    case (Inr u)
    have "undisturbed (w1\<lparr>running := True\<rparr>) (snd (main_loop (w1\<lparr>running := True\<rparr>)))"
      by (rule main_loop_undisturbed)
    then show ?thesis using i Inr k by (simp add: session_body_def io_bind_def undisturbed_def)
  qed
qed

lemma session_body_raises: "\<exists>e. fst (session_body w) = Inl e"
proof -
  obtain r w1 where i: "Queries_init w = (r, w1)" by (cases "Queries_init w")
  show ?thesis
  proof (cases r)
    case (Inl e)
    then show ?thesis using i by (simp add: session_body_def io_bind_def)
  next
    case (Inr u)
    have "\<exists>e. fst (main_loop (w1\<lparr>running := True\<rparr>)) = Inl e"
      by (rule main_loop_raises) simp
    then show ?thesis using i Inr by (simp add: session_body_def io_bind_def)
  qed
qed

text \<open>
  The \<^verbatim>\<open>with\<close> statement over any body that does not itself close the connection or write
  the notice: once the connection is acquired, the body's outcome \<open>r\<close>, a return or any
  exception, leaves the statement with one more close and one more notice, and goes on
  to the caller unchanged.
\<close>

lemma with_Connect_closes_once:
  assumes body: "\<And>w. undisturbed w (snd (body w))"
    and acquired: "connect_outcome w creds = None"
    and result: "with_Connect creds body w = (r, w')"
  shows "closes w' = closes w + 1 \<and>
         count_list (stdout w') close_notice = count_list (stdout w) close_notice + 1 \<and>
         last (stdout w') = close_notice \<and> \<not> connected w' \<and>
         r = fst (body (snd (Connect_enter creds w)))"
proof -
  let ?w1 = "w\<lparr>connected := True, stdout := stdout w @ [''Connected successfully.\<newline>'']\<rparr>"
  have enter: "Connect_enter creds w = (Inr (), ?w1)"
    using acquired by (simp add: Connect_enter_def db_connect_def sys_stdout_write_def)
  obtain r2 w2 where b: "body ?w1 = (r2, w2)" by (cases "body ?w1")
  have u: "undisturbed ?w1 w2" using body [of ?w1] b by simp
  have "with_Connect creds body w =
      (r2, w2\<lparr>connected := False, closes := closes w2 + 1, stdout := stdout w2 @ [close_notice]\<rparr>)"
    by (simp add: with_Connect_def enter b Connect_exit_def io_bind_def connection_close_def
        sys_stdout_write_def)
  then have "r = r2" and
    "w' = w2\<lparr>connected := False, closes := closes w2 + 1, stdout := stdout w2 @ [close_notice]\<rparr>"
    using result by simp_all
  then show ?thesis using u b enter by (simp add: undisturbed_def close_notice_def)
qed

text \<open>
  C2. Once the connection is acquired, the scope of \<^verbatim>\<open>run\<close> (the \<^verbatim>\<open>with\<close> statement over the
  construction of \<^verbatim>\<open>Queries\<close> and the loop) is left only by an exception \<open>e\<close>: a failure of the
  driver in any query, the interrupt key, or the end of the input. Whatever \<open>e\<close> is, the
  connection has then been closed exactly once more and exactly one more close notice has
  been written, the last thing on the output, and \<open>e\<close> goes on to the handlers of \<^verbatim>\<open>run\<close>.
  (A body that returns is closed in the same way: \<open>with_Connect_closes_once\<close>.)
\<close>

theorem scope_closes_exactly_once:
  "connect_outcome w creds = None \<Longrightarrow> with_Connect creds session_body w = (r, w') \<Longrightarrow>
   closes w' = closes w + 1 \<and>
   count_list (stdout w') close_notice = count_list (stdout w) close_notice + 1 \<and>
   last (stdout w') = close_notice \<and> \<not> connected w' \<and> (\<exists>e. r = Inl e)"
proof -
  assume acquired: "connect_outcome w creds = None"
    and result: "with_Connect creds session_body w = (r, w')"
  have "closes w' = closes w + 1 \<and>
        count_list (stdout w') close_notice = count_list (stdout w) close_notice + 1 \<and>
        last (stdout w') = close_notice \<and> \<not> connected w' \<and>
        r = fst (session_body (snd (Connect_enter creds w)))"
    using session_body_undisturbed acquired result by (rule with_Connect_closes_once)
  moreover have "\<exists>e. fst (session_body (snd (Connect_enter creds w))) = Inl e"
    by (rule session_body_raises)
  ultimately show ?thesis by auto
qed

lemma main_loop_unfold:
  "running w \<Longrightarrow>
   main_loop w =
     (case Shell__run w of
        (Inl e, w') \<Rightarrow> (Inl e, w'\<lparr>running := False\<rparr>)
      | (Inr u, w') \<Rightarrow> main_loop w')"
  by (subst main_loop.simps) simp

lemma failing_lookup_session:
  "fst (with_Connect [] session_body failing_lookup_world) = Inl (MySQLError (refused 2013))"
  by (simp add: failing_lookup_world_def idle_world_def with_Connect_def Connect_enter_def
      db_connect_def sys_stdout_write_def session_body_def io_bind_def Queries_init_def
      Queries__test_def cursor_execute_def driver_call_def run_statement_def
      connection_cursor_def handle_unread_result_def
      cursor_fetchone_def subscript_def main_loop_unfold Shell__run_def py_input_def
      read_event_def Queries_select_def Connect_exit_def connection_close_def)

lemma interrupted_session:
  "fst (with_Connect [] session_body interrupted_world) = Inl KeyboardInterrupt"
  by (simp add: interrupted_world_def idle_world_def with_Connect_def Connect_enter_def
      db_connect_def sys_stdout_write_def session_body_def io_bind_def io_return_def
      Queries_init_def
      Queries__test_def cursor_execute_def driver_call_def run_statement_def
      connection_cursor_def handle_unread_result_def
      cursor_fetchone_def subscript_def main_loop_unfold Shell__run_def py_input_def
      read_event_def Queries_select_def Connect_exit_def connection_close_def
      Queries_version_def Queries__select_def Shell__prompt_def prompt_loop_valid answers_def
      yes_answers_def no_answers_def)

text \<open>Witness for C2: in both sessions the connection is closed once and one notice is
  written, after a failed query and after an interrupt.\<close>

theorem scope_closes_exactly_once_witness:
  "fst (with_Connect [] session_body failing_lookup_world) = Inl (MySQLError (refused 2013)) \<and>
   closes (snd (with_Connect [] session_body failing_lookup_world)) = 1 \<and>
   count_list (stdout (snd (with_Connect [] session_body failing_lookup_world))) close_notice = 1 \<and>
   fst (with_Connect [] session_body interrupted_world) = Inl KeyboardInterrupt \<and>
   closes (snd (with_Connect [] session_body interrupted_world)) = 1 \<and>
   count_list (stdout (snd (with_Connect [] session_body interrupted_world))) close_notice = 1"
  using
    scope_closes_exactly_once
      [of failing_lookup_world "[]" "fst (with_Connect [] session_body failing_lookup_world)"
          "snd (with_Connect [] session_body failing_lookup_world)"]
    scope_closes_exactly_once
      [of interrupted_world "[]" "fst (with_Connect [] session_body interrupted_world)"
          "snd (with_Connect [] session_body interrupted_world)"]
    failing_lookup_session interrupted_session
  by (simp add: failing_lookup_world_def interrupted_world_def idle_world_def)

lemma bind_raises:
  assumes "\<And>x w. \<exists>e. fst (f x w) = Inl e"
  shows "\<exists>e. fst (io_bind m f w) = Inl e"
proof -
  obtain r w1 where m: "m w = (r, w1)" by (cases "m w")
  show ?thesis
  proof (cases r)
    case (Inl e)
    then show ?thesis using m by (simp add: io_bind_def)
  next
    case (Inr x)
    then show ?thesis using m assms [of x w1] by (simp add: io_bind_def)
  qed
qed

lemma with_Connect_raises:
  assumes "\<And>w. \<exists>e. fst (body w) = Inl e"
  shows "\<exists>e. fst (with_Connect creds body w) = Inl e"
proof -
  obtain r w1 where en: "Connect_enter creds w = (r, w1)" by (cases "Connect_enter creds w")
  show ?thesis
  proof (cases r)
    case (Inl e)
    then show ?thesis using en by (simp add: with_Connect_def)
  next
    case (Inr conn)
    obtain r2 w2 where b: "body w1 = (r2, w2)" by (cases "body w1")
    then obtain e where "r2 = Inl e" using assms [of w1] by auto
    then show ?thesis
      using en Inr b
      by (simp add: with_Connect_def Connect_exit_def io_bind_def connection_close_def
          sys_stdout_write_def)
  qed
qed

text \<open>The \<^verbatim>\<open>try\<close> block of \<^verbatim>\<open>run\<close> never completes: it always ends by an exception.\<close>

lemma Shell_run_try_raises: "\<exists>e. fst (Shell_run_try debug env w) = Inl e"
  unfolding Shell_run_try_def
  by (intro bind_raises with_Connect_raises session_body_raises)

text \<open>
  C4. Every run ends in \<^verbatim>\<open>exit\<close>: the \<^verbatim>\<open>try\<close> block of \<^verbatim>\<open>run\<close> ends by some exception \<open>e\<close>, and the
  exit code is 0 when \<open>e\<close> is the user's interrupt or the classified login failure
  \<^verbatim>\<open>IncorrectLogin\<close>, and 1 for every other exception: the other two connection failures, any
  other driver error, and any other Python exception.
\<close>

theorem exit_codes:
  "\<exists>e w'. Shell_run_try debug env w = (Inl e, w') \<and>
     fst (Shell_run debug env w) =
       SystemExit (if isinstance_KeyboardInterrupt e \<or> isinstance_IncorrectLogin e then 0 else 1)"
proof -
  obtain r w' where t: "Shell_run_try debug env w = (r, w')"
    by (cases "Shell_run_try debug env w")
  then obtain e where r: "r = Inl e" using Shell_run_try_raises [of debug env w] by auto
  have "fst (Shell_run debug env w) =
       SystemExit (if isinstance_KeyboardInterrupt e \<or> isinstance_IncorrectLogin e then 0 else 1)"
  proof (cases e)
    case (ConnectionFailureError c err m)
    then show ?thesis using t r by (cases c) (simp_all add: Shell_run_def Shell__exit_def)
  qed (use t r in \<open>simp_all add: Shell_run_def Shell__exit_def\<close>)
  then show ?thesis using t r by blast
qed

text \<open>Four runs: the server refuses the login with some code; the user presses the
  interrupt key at the first question; the driver fails the first lookup.\<close>

lemma refused_run:
  "fst (Shell_run_try True DEFAULT_ENV
          (idle_world\<lparr>stdin := login_lines,
                       connect_outcome := (\<lambda>creds. Some (MySQLError (refused code)))\<rparr>)) =
     Inl (if code = 1045 then IncorrectLogin (refused code)
          else if code = 1044 then AccessDenied (refused code)
          else if code = 1049 then DatabaseNotFound (refused code)
          else MySQLError (refused code))"
  by (simp add: Shell_run_try_def Shell__init_def Shell_login_def login_prompt_def io_bind_def
      io_return_def py_print_def py_input_def sys_stdout_write_def read_event_def
      login_lines_def idle_world_def with_Connect_def Connect_enter_def db_connect_def
      refused_def ER_ACCESS_DENIED_ERROR_def ER_DBACCESS_DENIED_ERROR_def ER_BAD_DB_ERROR_def)

lemma interrupted_login_run:
  "fst (Shell_run_try True DEFAULT_ENV (idle_world\<lparr>stdin := [Sigint]\<rparr>)) = Inl KeyboardInterrupt"
  by (simp add: Shell_run_try_def Shell__init_def Shell_login_def login_prompt_def io_bind_def
      py_print_def py_input_def sys_stdout_write_def read_event_def idle_world_def)

lemma failing_lookup_run:
  "fst (Shell_run_try True DEFAULT_ENV
          (idle_world\<lparr>stdin := login_lines @ [Line ''cat''],
                       faults := [None, Some (MySQLError (refused 2013))]\<rparr>)) =
     Inl (MySQLError (refused 2013))"
  by (simp add: Shell_run_try_def Shell__init_def Shell_login_def login_prompt_def io_bind_def
      io_return_def py_print_def py_input_def sys_stdout_write_def read_event_def
      login_lines_def idle_world_def with_Connect_def Connect_enter_def db_connect_def
      session_body_def Queries_init_def
      Queries__test_def cursor_execute_def driver_call_def run_statement_def
      connection_cursor_def handle_unread_result_def
      cursor_fetchone_def subscript_def main_loop_unfold Shell__run_def
      Queries_select_def Connect_exit_def connection_close_def)

text \<open>Witness for C4: exit code 0 for the refused login (1045) and for the interrupt, 1 for
  the unknown database (1049) and for the failed query.\<close>

theorem exit_codes_witness:
  "fst (Shell_run True DEFAULT_ENV
          (idle_world\<lparr>stdin := login_lines,
                       connect_outcome := (\<lambda>creds. Some (MySQLError (refused 1045)))\<rparr>)) =
     SystemExit 0 \<and>
   fst (Shell_run True DEFAULT_ENV (idle_world\<lparr>stdin := [Sigint]\<rparr>)) = SystemExit 0 \<and>
   fst (Shell_run True DEFAULT_ENV
          (idle_world\<lparr>stdin := login_lines,
                       connect_outcome := (\<lambda>creds. Some (MySQLError (refused 1049)))\<rparr>)) =
     SystemExit 1 \<and>
   fst (Shell_run True DEFAULT_ENV
          (idle_world\<lparr>stdin := login_lines @ [Line ''cat''],
                       faults := [None, Some (MySQLError (refused 2013))]\<rparr>)) =
     SystemExit 1"
  using
    exit_codes [of True DEFAULT_ENV
        "idle_world\<lparr>stdin := login_lines,
                       connect_outcome := (\<lambda>creds. Some (MySQLError (refused 1045)))\<rparr>"]
    exit_codes [of True DEFAULT_ENV "idle_world\<lparr>stdin := [Sigint]\<rparr>"]
    exit_codes [of True DEFAULT_ENV
        "idle_world\<lparr>stdin := login_lines,
                       connect_outcome := (\<lambda>creds. Some (MySQLError (refused 1049)))\<rparr>"]
    exit_codes [of True DEFAULT_ENV
        "idle_world\<lparr>stdin := login_lines @ [Line ''cat''],
                       faults := [None, Some (MySQLError (refused 2013))]\<rparr>"]
    refused_run [of 1045] refused_run [of 1049] interrupted_login_run failing_lookup_run
  by (auto simp: IncorrectLogin_def DatabaseNotFound_def)

end
